theory Spec2Isabelle
  imports Main "HOL-Library.AList" "HOL-Library.Sublist"
begin

section \<open>Archive import into the Django backend\<close>

text \<open>
  A shallow embedding of \<^verbatim>\<open>aiida/tools/importexport/dbimport/backends/django.py\<close>:
  \<^verbatim>\<open>import_data_dj\<close> and its helpers \<^verbatim>\<open>_select_entity_data\<close>,
  \<^verbatim>\<open>_store_entity_data\<close>, \<^verbatim>\<open>_store_node_links\<close> and
  \<^verbatim>\<open>_add_nodes_to_groups\<close>. The database is an explicit value that every
  phase takes and returns; every \<^verbatim>\<open>raise\<close> is an \<open>Inl\<close> result.
\<close>

subsection \<open>Values, records and errors\<close>

text \<open>
  A field value of an archive record or of a database row: JSON scalars and dictionaries
  (Python \<^verbatim>\<open>None\<close>, \<^verbatim>\<open>str\<close>, \<^verbatim>\<open>int\<close>, \<^verbatim>\<open>dict\<close>).
  Time stamps are integers. A record (\<^verbatim>\<open>fields\<close>) is a dictionary, kept as an
  association list in insertion order.
\<close>

datatype val = VNone | VStr string | VInt int | VDict "(string \<times> val) list"

type_synonym fields = "(string \<times> val) list"

text \<open>The enumeration \<^verbatim>\<open>LinkType\<close>, as the keys of \<^verbatim>\<open>link_mapping\<close> list it.\<close>

datatype LinkType = CALL_CALC | CALL_WORK | CREATE | INPUT_CALC | INPUT_WORK | RETURN

text \<open>The cardinality classes \<^verbatim>\<open>'unique'\<close>, \<^verbatim>\<open>'unique_pair'\<close> and
  \<^verbatim>\<open>'unique_triple'\<close> of \<^verbatim>\<open>link_mapping\<close>.\<close>

datatype degree = unique | unique_pair | unique_triple

text \<open>
  The messages of \<^verbatim>\<open>ImportValidationError\<close>, with the values their format strings
  insert.
\<close>

datatype validation =
    Unknown_extras_mode_new string
  | Group_must_be_a_Group
  | Unknown_model string
  | Unknown_link_nodes string string string string
  | Link_label_invalid
  | Link_to_oneself
  | Cannot_add_link LinkType string string
  | Outgoing_exists val LinkType
  | Outgoing_label_exists val LinkType string
  | Incoming_exists val LinkType
  | Incoming_label_exists val LinkType string
  | Unknown_comment_mode string

datatype error =
    ImportValidationError validation
  | DanglingLinkError "string set"
  | ArchiveImportError string string
  | ImportUniquenessError string
  | KeyError val
  | ValueError
  | DoesNotExist
  | IntegrityError
  | TypeError
  | External string

text \<open>A link record of the archive (\<^verbatim>\<open>reader.iter_link_data()\<close>): the keys
  \<^verbatim>\<open>'input'\<close>, \<^verbatim>\<open>'output'\<close>, \<^verbatim>\<open>'label'\<close> and \<^verbatim>\<open>'type'\<close>.\<close>

record link_data =
  l_input :: string
  l_output :: string
  l_label :: string
  l_type :: string

subsection \<open>The database\<close>

text \<open>
  One table of rows per entity name; a row is its primary key and its columns. The
  link table holds \<^verbatim>\<open>(input, output, label, type)\<close>, the group membership
  relation holds \<^verbatim>\<open>(group pk, node pk)\<close>.
\<close>

type_synonym row = "int \<times> fields"

type_synonym dblink = "int \<times> int \<times> string \<times> string"

record db =
  tables :: "string \<Rightarrow> row list"
  dblinks :: "dblink list"
  dbgroup_nodes :: "(int \<times> int) set"

definition USER_ENTITY_NAME :: string where "USER_ENTITY_NAME = ''User''"
definition COMPUTER_ENTITY_NAME :: string where "COMPUTER_ENTITY_NAME = ''Computer''"
definition NODE_ENTITY_NAME :: string where "NODE_ENTITY_NAME = ''Node''"
definition GROUP_ENTITY_NAME :: string where "GROUP_ENTITY_NAME = ''Group''"
definition LOG_ENTITY_NAME :: string where "LOG_ENTITY_NAME = ''Log''"
definition COMMENT_ENTITY_NAME :: string where "COMMENT_ENTITY_NAME = ''Comment''"

text \<open>\<^verbatim>\<open>model.objects.get(id=pk)\<close>: the row with that primary key, if any.\<close>

definition get_by_pk :: "row list \<Rightarrow> int \<Rightarrow> row option" where
  "get_by_pk rows pk = find (\<lambda>r. fst r = pk) rows"

text \<open>An attribute of a row: the column's value, \<open>VNone\<close> for a column without one.\<close>

definition attr :: "row \<Rightarrow> string \<Rightarrow> val" where
  "attr r k = (case map_of (snd r) k of None \<Rightarrow> VNone | Some v \<Rightarrow> v)"

text \<open>\<^verbatim>\<open>node.node_type\<close> as a string (the column is a character field).\<close>

definition node_type :: "row \<Rightarrow> string" where
  "node_type r = (case attr r ''node_type'' of VStr s \<Rightarrow> s | _ \<Rightarrow> [])"

subsection \<open>Link materialization: \<^verbatim>\<open>_store_node_links\<close>\<close>

text \<open>The table \<^verbatim>\<open>link_mapping\<close> (lines 545-552): source prefix, target prefix,
  out-degree, in-degree.\<close>

definition calculation_node_types :: string where
  "calculation_node_types = ''process.calculation.''"

definition workflow_node_types :: string where
  "workflow_node_types = ''process.workflow.''"

definition data_node_types :: string where
  "data_node_types = ''data.''"

fun link_mapping :: "LinkType \<Rightarrow> string \<times> string \<times> degree \<times> degree" where
  "link_mapping CALL_CALC = (workflow_node_types, calculation_node_types, unique_triple, unique)"
| "link_mapping CALL_WORK = (workflow_node_types, workflow_node_types, unique_triple, unique)"
| "link_mapping CREATE = (calculation_node_types, data_node_types, unique_pair, unique)"
| "link_mapping INPUT_CALC = (data_node_types, calculation_node_types, unique_triple, unique_pair)"
| "link_mapping INPUT_WORK = (data_node_types, workflow_node_types, unique_triple, unique_pair)"
| "link_mapping RETURN = (workflow_node_types, data_node_types, unique_pair, unique_triple)"

text \<open>
  The local state of the loop over the links: the batch \<^verbatim>\<open>links_to_store\<close>, the
  entry \<^verbatim>\<open>ret_dict['Link']['new']\<close> (\<open>None\<close> while the key \<^verbatim>\<open>'Link'\<close> is absent) and
  the five in-memory index sets.
\<close>

record link_state =
  links_to_store :: "dblink list"
  ret_links :: "(int \<times> int) list option"
  existing_links :: "dblink set"
  existing_outgoing_unique :: "(int \<times> string) set"
  existing_outgoing_unique_pair :: "(int \<times> string \<times> string) set"
  existing_incoming_unique :: "(int \<times> string) set"
  existing_incoming_unique_pair :: "(int \<times> string \<times> string) set"

text \<open>Lines 530-539: the index sets as loaded from the link table.\<close>

definition init_link_state :: "dblink list \<Rightarrow> (int \<times> int) list option \<Rightarrow> link_state" where
  "init_link_state ls ret =
     \<lparr> links_to_store = [],
       ret_links = ret,
       existing_links = set ls,
       existing_outgoing_unique = (\<lambda>(i, o', lb, ty). (i, ty)) ` set ls,
       existing_outgoing_unique_pair = (\<lambda>(i, o', lb, ty). (i, lb, ty)) ` set ls,
       existing_incoming_unique = (\<lambda>(i, o', lb, ty). (o', ty)) ` set ls,
       existing_incoming_unique_pair = (\<lambda>(i, o', lb, ty). (o', lb, ty)) ` set ls \<rparr>"

text \<open>
  The identifier map \<^verbatim>\<open>foreign_ids_reverse_mappings\<close>: entity name to (unique
  identifier to primary key). \<^verbatim>\<open>foreign_ids_reverse_mappings[NODE_ENTITY_NAME][u]\<close>
  raises \<^verbatim>\<open>KeyError\<close> when either key is absent; \<open>node_id\<close> is \<open>None\<close> then.
\<close>

type_synonym id_maps = "string \<rightharpoonup> (val \<rightharpoonup> int)"

definition node_id :: "id_maps \<Rightarrow> string \<Rightarrow> int option" where
  "node_id fm u = (case fm NODE_ENTITY_NAME of None \<Rightarrow> None | Some m \<Rightarrow> m (VStr u))"

text \<open>Lines 642-655: a new link joins the batch, the report and the five index sets.\<close>

definition accept_link :: "link_state \<Rightarrow> int \<Rightarrow> int \<Rightarrow> link_data \<Rightarrow> link_state" where
  "accept_link st in_id out_id l =
     st \<lparr> links_to_store := links_to_store st @ [(in_id, out_id, l_label l, l_type l)],
          ret_links := Some ((case ret_links st of None \<Rightarrow> [] | Some ps \<Rightarrow> ps) @ [(in_id, out_id)]),
          existing_links := insert (in_id, out_id, l_label l, l_type l) (existing_links st),
          existing_outgoing_unique := insert (in_id, l_type l) (existing_outgoing_unique st),
          existing_outgoing_unique_pair :=
            insert (in_id, l_label l, l_type l) (existing_outgoing_unique_pair st),
          existing_incoming_unique := insert (out_id, l_type l) (existing_incoming_unique st),
          existing_incoming_unique_pair :=
            insert (out_id, l_label l, l_type l) (existing_incoming_unique_pair st) \<rparr>"

text \<open>
  The body of the loop (lines 563-655) for one link. The parameters
  \<open>validate_link_label\<close> (true when \<^verbatim>\<open>aiida.common.links.validate_link_label\<close> returns
  without \<^verbatim>\<open>ValueError\<close>) and \<open>link_type_of\<close> (the enumeration lookup
  \<^verbatim>\<open>LinkType(link['type'])\<close>, \<open>None\<close> where it raises \<^verbatim>\<open>ValueError\<close>) stand for code
  outside this module. \<open>Inr st\<close> with the state unchanged is \<^verbatim>\<open>continue\<close>.
\<close>

definition link_step ::
  "(string \<Rightarrow> bool) \<Rightarrow> (string \<Rightarrow> LinkType option) \<Rightarrow> bool \<Rightarrow> id_maps \<Rightarrow> row list \<Rightarrow>
   link_state \<Rightarrow> link_data \<Rightarrow> error + link_state" where
  "link_step validate_link_label link_type_of ignore_unknown_nodes fm nodes st l =
    (case (node_id fm (l_input l), node_id fm (l_output l)) of
      (Some in_id, Some out_id) \<Rightarrow>
        if (in_id, out_id, l_label l, l_type l) \<in> existing_links st then Inr st
        else if \<not> validate_link_label (l_label l) then Inl (ImportValidationError Link_label_invalid)
        else
          (case get_by_pk nodes in_id of
            None \<Rightarrow> Inl DoesNotExist
          | Some source \<Rightarrow>
            (case get_by_pk nodes out_id of
              None \<Rightarrow> Inl DoesNotExist
            | Some target \<Rightarrow>
                if attr source ''uuid'' = attr target ''uuid''
                then Inl (ImportValidationError Link_to_oneself)
                else
                  (case link_type_of (l_type l) of
                    None \<Rightarrow> Inl ValueError
                  | Some link_type \<Rightarrow>
                    (case link_mapping link_type of
                      (type_source, type_target, outdegree, indegree) \<Rightarrow>
                        if \<not> prefix type_source (node_type source)
                        then Inl (ImportValidationError
                               (Cannot_add_link link_type (node_type source) (node_type target)))
                        else if \<not> prefix type_target (node_type target)
                        then Inl (ImportValidationError
                               (Cannot_add_link link_type (node_type source) (node_type target)))
                        else if outdegree = unique
                                \<and> (in_id, l_type l) \<in> existing_outgoing_unique st
                        then Inl (ImportValidationError
                               (Outgoing_exists (attr source ''uuid'') link_type))
                        else if outdegree = unique_pair
                                \<and> (in_id, l_label l, l_type l) \<in> existing_outgoing_unique_pair st
                        then Inl (ImportValidationError
                               (Outgoing_label_exists (attr source ''uuid'') link_type (l_label l)))
                        else if indegree = unique
                                \<and> (out_id, l_type l) \<in> existing_incoming_unique st
                        then Inl (ImportValidationError
                               (Incoming_exists (attr target ''uuid'') link_type))
                        else if indegree = unique_pair
                                \<and> (out_id, l_label l, l_type l) \<in> existing_incoming_unique_pair st
                        then Inl (ImportValidationError
                               (Incoming_label_exists (attr target ''uuid'') link_type (l_label l)))
                        else Inr (accept_link st in_id out_id l)))))
    | _ \<Rightarrow>
        if ignore_unknown_nodes then Inr st
        else Inl (ImportValidationError
               (Unknown_link_nodes (l_input l) (l_output l) (l_label l) (l_type l))))"

text \<open>The loop \<^verbatim>\<open>for link in reader.iter_link_data()\<close>: the first error ends it.\<close>

fun link_loop ::
  "(string \<Rightarrow> bool) \<Rightarrow> (string \<Rightarrow> LinkType option) \<Rightarrow> bool \<Rightarrow> id_maps \<Rightarrow> row list \<Rightarrow>
   link_state \<Rightarrow> link_data list \<Rightarrow> error + link_state" where
  "link_loop vl lt ign fm nodes st [] = Inr st"
| "link_loop vl lt ign fm nodes st (l # ls) =
     (case link_step vl lt ign fm nodes st l of
        Inl e \<Rightarrow> Inl e
      | Inr st' \<Rightarrow> link_loop vl lt ign fm nodes st' ls)"

text \<open>
  \<^verbatim>\<open>_store_node_links\<close>: returns the report entry for the links and the database
  after \<^verbatim>\<open>bulk_create\<close>. \<^verbatim>\<open>reader.link_count\<close> is the number of link records.
\<close>

definition store_node_links ::
  "(string \<Rightarrow> bool) \<Rightarrow> (string \<Rightarrow> LinkType option) \<Rightarrow> link_data list \<Rightarrow> bool \<Rightarrow> id_maps \<Rightarrow>
   (int \<times> int) list option \<Rightarrow> db \<Rightarrow> error + ((int \<times> int) list option \<times> db)" where
  "store_node_links vl lt links ignore_unknown_nodes fm ret d =
     (if length links = 0 then Inr (ret, d)
      else
        (case link_loop vl lt ignore_unknown_nodes fm (tables d NODE_ENTITY_NAME)
                (init_link_state (dblinks d) ret) links of
           Inl e \<Rightarrow> Inl e
         | Inr st \<Rightarrow> Inr (ret_links st, d \<lparr> dblinks := dblinks d @ links_to_store st \<rparr>)))"

text \<open>
  The four index sets are the projections of \<^verbatim>\<open>existing_links\<close> that lines 536-539
  build and lines 651-655 maintain.
\<close>

definition index_inv :: "link_state \<Rightarrow> bool" where
  "index_inv st \<longleftrightarrow>
     existing_outgoing_unique st = (\<lambda>(i, o', lb, ty). (i, ty)) ` existing_links st \<and>
     existing_outgoing_unique_pair st = (\<lambda>(i, o', lb, ty). (i, lb, ty)) ` existing_links st \<and>
     existing_incoming_unique st = (\<lambda>(i, o', lb, ty). (o', ty)) ` existing_links st \<and>
     existing_incoming_unique_pair st = (\<lambda>(i, o', lb, ty). (o', lb, ty)) ` existing_links st"

subsection \<open>The archive reader and the collaborators outside this module\<close>

text \<open>
  What the module reads from an \<^verbatim>\<open>ArchiveReaderAbstract\<close>: \<^verbatim>\<open>check_version()\<close>
  (its exception, if it raises), \<^verbatim>\<open>entity_names\<close>, the records behind
  \<^verbatim>\<open>iter_entity_fields\<close> (archive-local pk and fields, per entity name),
  \<^verbatim>\<open>iter_link_data()\<close>, \<^verbatim>\<open>iter_group_uuids()\<close> and the two tables of
  \<^verbatim>\<open>metadata\<close>. A field descriptor of \<^verbatim>\<open>all_fields_info\<close> is a dictionary of strings.
\<close>

record reader =
  check_version :: "error option"
  entity_names :: "string list"
  export_data :: "string \<Rightarrow> (int \<times> fields) list"
  link_uuids :: "link_data list"
  group_uuids :: "(string \<times> string list) list"
  unique_identifiers :: "(string \<times> string) list"
  all_fields_info :: "(string \<times> (string \<times> (string \<times> string) list) list) list"

definition iter_entity_fields :: "reader \<Rightarrow> string \<Rightarrow> (int \<times> fields) list" where
  "iter_entity_fields r entity_name = export_data r entity_name"

definition entity_count :: "reader \<Rightarrow> string \<Rightarrow> nat" where
  "entity_count r entity_name = length (export_data r entity_name)"

text \<open>\<^verbatim>\<open>reader.iter_node_uuids()\<close>: the \<^verbatim>\<open>uuid\<close> (a string) of every node record.\<close>

definition iter_node_uuids :: "reader \<Rightarrow> string list" where
  "iter_node_uuids r =
     List.map_filter (\<lambda>(pk, f). case map_of f ''uuid'' of Some (VStr u) \<Rightarrow> Some u | _ \<Rightarrow> None)
       (export_data r NODE_ENTITY_NAME)"

text \<open>The \<^verbatim>\<open>group\<close> argument: a \<^verbatim>\<open>Group\<close> with its pk (\<open>None\<close> while it is not
  stored) and its columns, or an object of another class.\<close>

datatype orm_group = NotGroup | OrmGroup "int option" fields

text \<open>
  The state that \<^verbatim>\<open>import_data_dj\<close> threads through its helpers: the dictionaries
  \<^verbatim>\<open>new_entries\<close> and \<^verbatim>\<open>existing_entries\<close> (entity name to archive-local pk to
  fields), \<^verbatim>\<open>foreign_ids_reverse_mappings\<close> and the report \<^verbatim>\<open>ret_dict\<close>: per entity
  name the lists \<^verbatim>\<open>'new'\<close> and \<^verbatim>\<open>'existing'\<close>, and the entry \<^verbatim>\<open>'Link'\<close>.
\<close>

type_synonym entries = "string \<rightharpoonup> (int \<times> fields) list"

record ctx =
  new_entries :: entries
  existing_entries :: entries
  foreign_ids_reverse_mappings :: id_maps
  ret_dict :: "string \<rightharpoonup> ((int \<times> int) list \<times> (int \<times> int) list)"
  ret_link :: "(int \<times> int) list option"

text \<open>
  The functions and constants that the module imports from elsewhere, as parameters:
  \<^verbatim>\<open>validate_uuid\<close>, \<^verbatim>\<open>validate_link_label\<close> (true when it does not raise), the lookup
  \<^verbatim>\<open>LinkType(...)\<close>, \<^verbatim>\<open>get_reader(detect_archive_type(in_path))\<close> (its exception, if it
  raises), entering \<^verbatim>\<open>reader_cls(in_path)\<close>,
  \<^verbatim>\<open>DUPL_SUFFIX.format\<close>, \<^verbatim>\<open>MAX_GROUPS\<close>, \<^verbatim>\<open>MAX_COMPUTERS\<close>, \<^verbatim>\<open>_sanitize_extras\<close>,
  \<^verbatim>\<open>_strip_checkpoints\<close>, \<^verbatim>\<open>deserialize_field\<close>, \<^verbatim>\<open>merge_extras\<close>,
  \<^verbatim>\<open>_copy_node_repositories\<close> (its exception, if it raises; the file repository is not
  part of the database), \<^verbatim>\<open>_make_import_group\<close> and \<^verbatim>\<open>get_new_uuid\<close>. The
  database schema (the Django models) is not among the sources either: \<open>integrity_error\<close>
  says whether its constraints refuse an object as a new row of a table with the given
  rows, and \<open>next_pk\<close> is the primary key that the table's sequence gives the next row.
\<close>

record externals =
  validate_uuid :: "string \<Rightarrow> bool"
  validate_link_label :: "string \<Rightarrow> bool"
  link_type_of :: "string \<Rightarrow> LinkType option"
  get_reader :: "string \<Rightarrow> error option"
  open_reader :: "string \<Rightarrow> error + reader"
  DUPL_SUFFIX :: "nat \<Rightarrow> string"
  MAX_GROUPS :: nat
  MAX_COMPUTERS :: nat
  sanitize_extras :: "fields \<Rightarrow> fields"
  strip_checkpoints :: "fields \<Rightarrow> fields"
  deserialize_field ::
    "string \<Rightarrow> val \<Rightarrow> (string \<times> (string \<times> string) list) list \<Rightarrow>
     (string \<rightharpoonup> (int \<rightharpoonup> val)) \<Rightarrow> id_maps \<Rightarrow> error + (string \<times> val)"
  merge_extras :: "val \<Rightarrow> val \<Rightarrow> string \<Rightarrow> error + val"
  copy_node_repositories :: "val list \<Rightarrow> reader \<Rightarrow> error option"
  make_import_group :: "orm_group option \<Rightarrow> int list \<Rightarrow> db \<Rightarrow> error + (orm_group \<times> db)"
  get_new_uuid :: "db \<Rightarrow> string"
  integrity_error :: "string \<Rightarrow> row list \<Rightarrow> fields \<Rightarrow> bool"
  next_pk :: "string \<Rightarrow> row list \<Rightarrow> int"

subsection \<open>Results that may fail or not return\<close>

text \<open>
  A call returns \<open>Some (Inr x)\<close>, raises (\<open>Some (Inl e)\<close>) or does not return (\<open>None\<close>);
  only the two renaming loops of \<^verbatim>\<open>_select_entity_data\<close> can fail to return.
\<close>

definition then_do ::
  "(error + 'a) option \<Rightarrow> ('a \<Rightarrow> (error + 'b) option) \<Rightarrow> (error + 'b) option" where
  "then_do m f = (case m of None \<Rightarrow> None | Some (Inl e) \<Rightarrow> Some (Inl e) | Some (Inr x) \<Rightarrow> f x)"

definition and_then :: "error + 'a \<Rightarrow> ('a \<Rightarrow> error + 'b) \<Rightarrow> error + 'b" where
  "and_then m f = (case m of Inl e \<Rightarrow> Inl e | Inr x \<Rightarrow> f x)"

text \<open>A \<^verbatim>\<open>for\<close> loop over a list whose body may raise.\<close>

fun for_each :: "('a \<Rightarrow> 's \<Rightarrow> error + 's) \<Rightarrow> 'a list \<Rightarrow> 's \<Rightarrow> error + 's" where
  "for_each body [] s = Inr s"
| "for_each body (x # xs) s = and_then (body x s) (for_each body xs)"

fun for_each_res ::
  "('a \<Rightarrow> 's \<Rightarrow> (error + 's) option) \<Rightarrow> 'a list \<Rightarrow> 's \<Rightarrow> (error + 's) option" where
  "for_each_res body [] s = Some (Inr s)"
| "for_each_res body (x # xs) s = then_do (body x s) (for_each_res body xs)"

text \<open>\<^verbatim>\<open>d[k]\<close> on a dictionary: \<^verbatim>\<open>KeyError\<close> for an absent key.\<close>

definition getitem :: "fields \<Rightarrow> string \<Rightarrow> error + val" where
  "getitem f k = (case map_of f k of None \<Rightarrow> Inl (KeyError (VStr k)) | Some v \<Rightarrow> Inr v)"

text \<open>\<^verbatim>\<open>fields[unique_identifier]\<close>, where \<^verbatim>\<open>unique_identifier\<close> may be \<^verbatim>\<open>None\<close>
  (no dictionary of field names has the key \<^verbatim>\<open>None\<close>).\<close>

definition getitem_uid :: "fields \<Rightarrow> string option \<Rightarrow> error + val" where
  "getitem_uid f uid = (case uid of None \<Rightarrow> Inl (KeyError VNone) | Some k \<Rightarrow> getitem f k)"

text \<open>A dictionary built from pairs (\<^verbatim>\<open>dict(...)\<close>, a comprehension): a repeated key
  keeps its first position and its last value.\<close>

definition dict_of :: "('k \<times> 'v) list \<Rightarrow> ('k \<times> 'v) list" where
  "dict_of ps = fold (\<lambda>(k, v) al. AList.update k v al) ps []"

subsection \<open>Pre-flight validation (lines 134-192)\<close>

text \<open>Lines 139-150: the identifiers referenced by links and group memberships that
  pass \<^verbatim>\<open>validate_uuid\<close>, minus the identifiers of the archive's nodes.\<close>

definition linked_nodes :: "reader \<Rightarrow> string set" where
  "linked_nodes r = set (concat (map (\<lambda>l. [l_input l, l_output l]) (link_uuids r)))"

definition group_nodes :: "reader \<Rightarrow> string set" where
  "group_nodes r = set (concat (map snd (group_uuids r)))"

definition import_nodes_uuid :: "reader \<Rightarrow> string set" where
  "import_nodes_uuid r = set (iter_node_uuids r)"

definition unknown_nodes :: "(string \<Rightarrow> bool) \<Rightarrow> reader \<Rightarrow> string set" where
  "unknown_nodes validate_uuid' r =
     ({x \<in> linked_nodes r. validate_uuid' x} \<union> {x \<in> group_nodes r. validate_uuid' x})
       - import_nodes_uuid r"

text \<open>Lines 152-157.\<close>

definition check_dangling :: "(string \<Rightarrow> bool) \<Rightarrow> reader \<Rightarrow> bool \<Rightarrow> error option" where
  "check_dangling validate_uuid' r ignore_unknown_nodes =
     (if unknown_nodes validate_uuid' r \<noteq> {} \<and> \<not> ignore_unknown_nodes
      then Some (DanglingLinkError (unknown_nodes validate_uuid' r)) else None)"

definition entity_order :: "string list" where
  "entity_order = [USER_ENTITY_NAME, COMPUTER_ENTITY_NAME, NODE_ENTITY_NAME, GROUP_ENTITY_NAME,
                   LOG_ENTITY_NAME, COMMENT_ENTITY_NAME]"

text \<open>Lines 168-170: the first entity name of the archive that is not a known model.\<close>

definition check_entity_names :: "reader \<Rightarrow> error option" where
  "check_entity_names r =
     (case find (\<lambda>n. n \<notin> set entity_order) (entity_names r) of
        None \<Rightarrow> None
      | Some n \<Rightarrow> Some (ImportValidationError (Unknown_model n)))"

text \<open>Lines 172-184, for the entity at position \<open>idx\<close> of \<^verbatim>\<open>entity_order\<close>: the
  \<^verbatim>\<open>'requires'\<close> entries of its field descriptors must all come earlier in the order.\<close>

definition check_dependencies_of :: "reader \<Rightarrow> nat \<Rightarrow> error option" where
  "check_dependencies_of r idx =
     (let entity_name = entity_order ! idx in
      case map_of (all_fields_info r) entity_name of
        None \<Rightarrow> Some (KeyError (VStr entity_name))
      | Some info \<Rightarrow>
          (case find (\<lambda>dependency. dependency \<notin> set (take idx entity_order))
                  (List.map_filter (\<lambda>(name, field). map_of field ''requires'') info) of
             None \<Rightarrow> None
           | Some dependency \<Rightarrow> Some (ArchiveImportError entity_name dependency)))"

definition check_dependencies :: "reader \<Rightarrow> error option" where
  "check_dependencies r =
     (case List.map_filter (check_dependencies_of r) [0 ..< length entity_order] of
        [] \<Rightarrow> None
      | e # _ \<Rightarrow> Some e)"

text \<open>Lines 188-192: \<^verbatim>\<open>import_unique_ids_mappings\<close>, archive-local pk to unique
  identifier for every entity name of \<^verbatim>\<open>metadata.unique_identifiers\<close>.\<close>

definition unique_ids_of ::
  "reader \<Rightarrow> string \<times> string \<Rightarrow> (string \<rightharpoonup> (int \<rightharpoonup> val)) \<Rightarrow> error + (string \<rightharpoonup> (int \<rightharpoonup> val))" where
  "unique_ids_of r = (\<lambda>(entity_name, identifier) m.
     and_then
       (for_each (\<lambda>(k, f) ps. and_then (getitem f identifier) (\<lambda>v. Inr (ps @ [(k, v)])))
          (iter_entity_fields r entity_name) [])
       (\<lambda>ps. Inr (m(entity_name \<mapsto> map_of (dict_of ps)))))"

definition import_unique_ids_mappings :: "reader \<Rightarrow> error + (string \<rightharpoonup> (int \<rightharpoonup> val))" where
  "import_unique_ids_mappings r =
     for_each (unique_ids_of r) (dict_of (unique_identifiers r)) Map.empty"

subsection \<open>Entity classification: \<^verbatim>\<open>_select_entity_data\<close>\<close>

text \<open>\<^verbatim>\<open>model.objects.filter(label=v)\<close> and \<^verbatim>\<open>filter(name=v)\<close> as truth values: some
  row of the table has that value in the column.\<close>

definition filter_exists :: "row list \<Rightarrow> string \<Rightarrow> val \<Rightarrow> bool" where
  "filter_exists rows column v = (\<exists>r \<in> set rows. attr r column = v)"

text \<open>
  The two renaming loops (lines 332-340 and 344-355) have one shape: while the current
  name is taken, it becomes the original name with \<^verbatim>\<open>DUPL_SUFFIX.format(dupl_counter)\<close>
  appended, the counter is incremented, and reaching the maximum raises
  \<^verbatim>\<open>ImportUniquenessError\<close>. \<open>taken\<close> is the loop condition: for a group, a stored
  group has the label; for a computer, a stored computer has the name or the name is
  in \<^verbatim>\<open>imported_comp_names\<close>.
\<close>

partial_function (option) dupl_loop ::
  "(string \<Rightarrow> bool) \<Rightarrow> (nat \<Rightarrow> string) \<Rightarrow> nat \<Rightarrow> string \<Rightarrow> string \<Rightarrow> nat \<Rightarrow> (error + string) option"
where
  "dupl_loop taken suf maximum orig current dupl_counter =
     (if taken current then
        (if dupl_counter + 1 = maximum then Some (Inl (ImportUniquenessError orig))
         else dupl_loop taken suf maximum orig (orig @ suf dupl_counter) (dupl_counter + 1))
      else Some (Inr current))"

text \<open>Lines 330-340 for one group record. A label that is not a string cannot be
  concatenated: \<^verbatim>\<open>TypeError\<close>, once the loop is entered.\<close>

definition rename_group :: "externals \<Rightarrow> row list \<Rightarrow> fields \<Rightarrow> (error + fields) option" where
  "rename_group ext rows f =
     (case map_of f ''label'' of
        None \<Rightarrow> Some (Inl (KeyError (VStr ''label'')))
      | Some (VStr orig_label) \<Rightarrow>
          then_do
            (dupl_loop (\<lambda>s. filter_exists rows ''label'' (VStr s)) (DUPL_SUFFIX ext) (MAX_GROUPS ext)
               orig_label orig_label 0)
            (\<lambda>label. Some (Inr (AList.update ''label'' (VStr label) f)))
      | Some v \<Rightarrow> if filter_exists rows ''label'' v then Some (Inl TypeError) else Some (Inr f))"

text \<open>Lines 342-357 for one computer record, with the set \<^verbatim>\<open>imported_comp_names\<close>.\<close>

definition rename_computer ::
  "externals \<Rightarrow> row list \<Rightarrow> val set \<Rightarrow> fields \<Rightarrow> (error + fields \<times> val set) option" where
  "rename_computer ext rows imported_comp_names f =
     (case map_of f ''name'' of
        None \<Rightarrow> Some (Inl (KeyError (VStr ''name'')))
      | Some (VStr orig_name) \<Rightarrow>
          then_do
            (dupl_loop (\<lambda>s. filter_exists rows ''name'' (VStr s) \<or> VStr s \<in> imported_comp_names)
               (DUPL_SUFFIX ext) (MAX_COMPUTERS ext) orig_name orig_name 0)
            (\<lambda>name. Some (Inr (AList.update ''name'' (VStr name) f,
                                insert (VStr name) imported_comp_names)))
      | Some v \<Rightarrow>
          if filter_exists rows ''name'' v \<or> v \<in> imported_comp_names then Some (Inl TypeError)
          else Some (Inr (f, insert v imported_comp_names)))"

text \<open>\<^verbatim>\<open>d[k] = v\<close> on \<^verbatim>\<open>new_entries[entity_name]\<close> or \<^verbatim>\<open>existing_entries[entity_name]\<close>.\<close>

definition set_entry :: "entries \<Rightarrow> string \<Rightarrow> int \<Rightarrow> fields \<Rightarrow> error + entries" where
  "set_entry es entity_name pk f =
     (case es entity_name of
        None \<Rightarrow> Inl (KeyError (VStr entity_name))
      | Some d \<Rightarrow> Inr (es(entity_name \<mapsto> AList.update pk f d)))"

text \<open>Lines 302-320: the stored rows whose unique identifier is among the archive's,
  as the dictionary from identifier to pk that \<^verbatim>\<open>foreign_ids_reverse_mappings\<close> keeps.\<close>

definition relevant_db_entries :: "row list \<Rightarrow> string \<Rightarrow> val set \<Rightarrow> (val \<rightharpoonup> int)" where
  "relevant_db_entries rows unique_identifier import_unique_ids =
     fold (\<lambda>r m. if attr r unique_identifier \<in> import_unique_ids
                  then m(attr r unique_identifier \<mapsto> fst r) else m) rows Map.empty"

text \<open>The body of the loop of lines 328-371 for one record; the state is the context
  and \<^verbatim>\<open>imported_comp_names\<close>.\<close>

definition select_record ::
  "externals \<Rightarrow> string \<Rightarrow> string \<Rightarrow> string \<Rightarrow> row list \<Rightarrow> (val \<rightharpoonup> int) \<Rightarrow>
   int \<times> fields \<Rightarrow> ctx \<times> val set \<Rightarrow> (error + ctx \<times> val set) option" where
  "select_record ext entity_name unique_identifier extras_mode_new rows relevant = (\<lambda>(pk, fields0) (c, names).
     then_do
       (if entity_name = GROUP_ENTITY_NAME
        then then_do (rename_group ext rows fields0) (\<lambda>f. Some (Inr (f, names)))
        else if entity_name = COMPUTER_ENTITY_NAME
        then rename_computer ext rows names fields0
        else Some (Inr (fields0, names)))
       (\<lambda>(fields1, names').
          Some (and_then (getitem fields1 unique_identifier) (\<lambda>uid.
            if uid \<in> dom relevant
            then and_then (set_entry (existing_entries c) entity_name pk fields1)
                   (\<lambda>es. Inr (c \<lparr>existing_entries := es\<rparr>, names'))
            else
              (let fields2 =
                 (if entity_name = NODE_ENTITY_NAME
                  then (let f = strip_checkpoints ext (sanitize_extras ext fields1)
                        in if extras_mode_new \<noteq> ''import'' then AList.delete ''extras'' f else f)
                  else fields1)
               in and_then (set_entry (new_entries c) entity_name pk fields2)
                    (\<lambda>es. Inr (c \<lparr>new_entries := es\<rparr>, names')))))))"

text \<open>\<^verbatim>\<open>d.setdefault(k, {})\<close>.\<close>

definition setdefault :: "entries \<Rightarrow> string \<Rightarrow> entries" where
  "setdefault es k = (case es k of None \<Rightarrow> es(k \<mapsto> []) | Some _ \<Rightarrow> es)"

definition select_entity_data ::
  "externals \<Rightarrow> string \<Rightarrow> reader \<Rightarrow> string \<Rightarrow> ctx \<times> db \<Rightarrow> (error + ctx \<times> db) option" where
  "select_entity_data ext entity_name r extras_mode_new = (\<lambda>(c0, d).
     if entity_name \<notin> set (entity_names r) then Some (Inr (c0, d))
     else
       (let c1 = c0 \<lparr> existing_entries := setdefault (existing_entries c0) entity_name,
                      new_entries := setdefault (new_entries c0) entity_name \<rparr>
        in case map_of (unique_identifiers r) entity_name of
          None \<Rightarrow>
            Some (Inr (c1 \<lparr> new_entries :=
                         (new_entries c1)(entity_name \<mapsto> dict_of (iter_entity_fields r entity_name)) \<rparr>, d))
        | Some unique_identifier \<Rightarrow>
            then_do
              (Some (for_each (\<lambda>(pk, f) ids. and_then (getitem f unique_identifier)
                                 (\<lambda>v. Inr (insert v ids)))
                       (iter_entity_fields r entity_name) {}))
              (\<lambda>import_unique_ids.
                 (let rows = tables d entity_name;
                      relevant = relevant_db_entries rows unique_identifier import_unique_ids;
                      c2 = c1 \<lparr> foreign_ids_reverse_mappings :=
                                  (foreign_ids_reverse_mappings c1)(entity_name \<mapsto> relevant) \<rparr>
                  in if entity_count r entity_name = 0 then Some (Inr (c2, d))
                     else then_do
                       (for_each_res
                          (select_record ext entity_name unique_identifier extras_mode_new rows relevant)
                          (iter_entity_fields r entity_name) (c2, {}))
                       (\<lambda>(c3, names). Some (Inr (c3, d)))))))"

subsection \<open>Entity materialization: \<^verbatim>\<open>_store_entity_data\<close>\<close>

text \<open>\<^verbatim>\<open>foreign_ids_reverse_mappings[entity_name][unique_id]\<close>.\<close>

definition get_id :: "id_maps \<Rightarrow> string \<Rightarrow> val \<Rightarrow> error + int" where
  "get_id fm entity_name u =
     (case fm entity_name of
        None \<Rightarrow> Inl (KeyError (VStr entity_name))
      | Some m \<Rightarrow> (case m u of None \<Rightarrow> Inl (KeyError u) | Some pk \<Rightarrow> Inr pk))"

text \<open>A primary key above those of all rows of a table.\<close>

definition fresh_pk :: "row list \<Rightarrow> int" where
  "fresh_pk rows = fold (\<lambda>r m. max (fst r + 1) m) rows 1"

text \<open>
  \<^verbatim>\<open>model.objects.bulk_create(objects_to_create)\<close>: the new rows follow the stored ones,
  each with the next primary key of the table's sequence; an object that the schema's
  constraints refuse raises \<^verbatim>\<open>IntegrityError\<close>.
\<close>

fun bulk_create :: "externals \<Rightarrow> string \<Rightarrow> row list \<Rightarrow> fields list \<Rightarrow> error + row list" where
  "bulk_create ext entity_name rows [] = Inr rows"
| "bulk_create ext entity_name rows (obj # objs) =
     (if integrity_error ext entity_name rows obj then Inl IntegrityError
      else bulk_create ext entity_name (rows @ [(next_pk ext entity_name rows, obj)]) objs)"

text \<open>Saving a changed column of the row with primary key \<open>pk\<close>.\<close>

definition update_column :: "row list \<Rightarrow> int \<Rightarrow> string \<Rightarrow> val \<Rightarrow> row list" where
  "update_column rows pk k v =
     map (\<lambda>r. if fst r = pk then (fst r, AList.update k v (snd r)) else r) rows"

text \<open>
  Modelled from the spec: \<^verbatim>\<open>merge_comment\<close> of
  \<^verbatim>\<open>aiida/tools/importexport/dbimport/utils.py\<close> is not among the sources. By sections
  4.3 and 8 of the specification: under \<^verbatim>\<open>"newest"\<close> the later modification time wins;
  an imported comment that is newer replaces the existing row's content (and time
  stamp), and for an existing row that is newer the imported comment is to become a new
  row, for which the function returns a regenerated unique identifier and leaves the
  existing row as it is; under \<^verbatim>\<open>"overwrite"\<close> the imported content always replaces the
  existing one. It returns \<open>None\<close> when no new comment is to be created. Any other mode is
  a validation error.
\<close>

definition overwrite_comment :: "db \<Rightarrow> row \<Rightarrow> val \<Rightarrow> val \<Rightarrow> db" where
  "overwrite_comment d existing content mtime =
     d \<lparr> tables := (tables d)(COMMENT_ENTITY_NAME :=
           update_column (update_column (tables d COMMENT_ENTITY_NAME) (fst existing) ''content'' content)
             (fst existing) ''mtime'' mtime) \<rparr>"

definition merge_comment ::
  "(db \<Rightarrow> string) \<Rightarrow> fields \<Rightarrow> string \<Rightarrow> db \<Rightarrow> error + (string option \<times> db)" where
  "merge_comment new_uuid incoming_comment comment_mode d =
     and_then (getitem incoming_comment ''uuid'') (\<lambda>incoming_uuid.
     and_then (getitem incoming_comment ''mtime'') (\<lambda>incoming_mtime.
     and_then (getitem incoming_comment ''content'') (\<lambda>incoming_content.
       if comment_mode = ''newest'' then
         (case find (\<lambda>r. attr r ''uuid'' = incoming_uuid) (tables d COMMENT_ENTITY_NAME) of
            None \<Rightarrow> Inl DoesNotExist
          | Some existing \<Rightarrow>
              (case (attr existing ''mtime'', incoming_mtime) of
                 (VInt existing_mtime, VInt imported_mtime) \<Rightarrow>
                   if existing_mtime < imported_mtime
                   then Inr (None, overwrite_comment d existing incoming_content incoming_mtime)
                   else if imported_mtime < existing_mtime
                   then Inr (Some (new_uuid d), d)
                   else Inr (None, d)
               | _ \<Rightarrow> Inl TypeError))
       else if comment_mode = ''overwrite'' then
         (case find (\<lambda>r. attr r ''uuid'' = incoming_uuid) (tables d COMMENT_ENTITY_NAME) of
            None \<Rightarrow> Inl DoesNotExist
          | Some existing \<Rightarrow>
              Inr (None, overwrite_comment d existing incoming_content incoming_mtime))
       else Inl (ImportValidationError (Unknown_comment_mode comment_mode)))))"

text \<open>Lines 403-411 and 435-443: \<^verbatim>\<open>dict(deserialize_field(k, v, ...) for k, v in entry_data.items())\<close>.\<close>

definition deserialize_entry ::
  "externals \<Rightarrow> (string \<times> (string \<times> string) list) list \<Rightarrow> (string \<rightharpoonup> (int \<rightharpoonup> val)) \<Rightarrow> id_maps \<Rightarrow>
   fields \<Rightarrow> error + fields" where
  "deserialize_entry ext fields_info iu fm entry_data =
     and_then
       (for_each (\<lambda>(k, v) ps. and_then (deserialize_field ext k v fields_info iu fm)
                                (\<lambda>p. Inr (ps @ [p]))) entry_data [])
       (\<lambda>ps. Inr (dict_of ps))"

text \<open>Lines 420-422 and 510-512: appending to \<^verbatim>\<open>ret_dict[entity_name]['existing']\<close> and to
  \<^verbatim>\<open>ret_dict[entity_name]['new']\<close>.\<close>

definition append_existing ::
  "(string \<rightharpoonup> ((int \<times> int) list \<times> (int \<times> int) list)) \<Rightarrow> string \<Rightarrow> int \<times> int \<Rightarrow>
   (string \<rightharpoonup> ((int \<times> int) list \<times> (int \<times> int) list))" where
  "append_existing rd entity_name p =
     (case rd entity_name of
        None \<Rightarrow> rd(entity_name \<mapsto> ([], [p]))
      | Some (new, existing) \<Rightarrow> rd(entity_name \<mapsto> (new, existing @ [p])))"

definition append_new ::
  "(string \<rightharpoonup> ((int \<times> int) list \<times> (int \<times> int) list)) \<Rightarrow> string \<Rightarrow> int \<times> int \<Rightarrow>
   (string \<rightharpoonup> ((int \<times> int) list \<times> (int \<times> int) list))" where
  "append_new rd entity_name p =
     (case rd entity_name of
        None \<Rightarrow> rd(entity_name \<mapsto> ([p], []))
      | Some (new, existing) \<Rightarrow> rd(entity_name \<mapsto> (new @ [p], existing)))"

text \<open>
  The body of the loop over the existing entries (lines 397-422). For a comment,
  \<^verbatim>\<open>merge_comment\<close> may return a new identifier: the entry then gets it as its unique
  identifier and is put into \<^verbatim>\<open>new_entries\<close> (lines 414-418).
\<close>

definition store_existing_entry ::
  "externals \<Rightarrow> string \<Rightarrow> string \<Rightarrow> string option \<Rightarrow> (string \<times> (string \<times> string) list) list \<Rightarrow>
   (string \<rightharpoonup> (int \<rightharpoonup> val)) \<Rightarrow> int \<times> fields \<Rightarrow> ctx \<times> db \<Rightarrow> error + ctx \<times> db" where
  "store_existing_entry ext entity_name comment_mode unique_identifier fields_info iu =
     (\<lambda>(import_entry_pk, entry_data) (c, d).
       and_then (getitem_uid entry_data unique_identifier) (\<lambda>unique_id.
       and_then (get_id (foreign_ids_reverse_mappings c) entity_name unique_id) (\<lambda>existing_entry_id.
       and_then (deserialize_entry ext fields_info iu (foreign_ids_reverse_mappings c) entry_data)
         (\<lambda>import_data.
       and_then
         (if entity_name = COMMENT_ENTITY_NAME then
            and_then (merge_comment (get_new_uuid ext) import_data comment_mode d)
              (\<lambda>(new_entry_uuid, d').
                 case new_entry_uuid of
                   None \<Rightarrow> Inr (c, d')
                 | Some u \<Rightarrow>
                     (case unique_identifier of
                        None \<Rightarrow> Inl (KeyError VNone)
                      | Some uid \<Rightarrow>
                          and_then
                            (set_entry (new_entries c) entity_name import_entry_pk
                               (AList.update uid (VStr u) entry_data))
                            (\<lambda>es. Inr (c \<lparr>new_entries := es\<rparr>, d'))))
          else Inr (c, d))
         (\<lambda>(c', d').
            Inr (c' \<lparr>ret_dict := append_existing (ret_dict c') entity_name
                                   (import_entry_pk, existing_entry_id)\<rparr>, d'))))))"

text \<open>The body of the loop over the new entries (lines 433-446): the state is
  \<^verbatim>\<open>objects_to_create\<close> and \<^verbatim>\<open>import_new_entry_pks\<close>.\<close>

definition collect_new_entry ::
  "externals \<Rightarrow> string option \<Rightarrow> (string \<times> (string \<times> string) list) list \<Rightarrow>
   (string \<rightharpoonup> (int \<rightharpoonup> val)) \<Rightarrow> id_maps \<Rightarrow> int \<times> fields \<Rightarrow>
   fields list \<times> (val \<times> int) list \<Rightarrow> error + fields list \<times> (val \<times> int) list" where
  "collect_new_entry ext unique_identifier fields_info iu fm =
     (\<lambda>(import_entry_pk, entry_data) (objects_to_create, import_new_entry_pks).
       and_then (getitem_uid entry_data unique_identifier) (\<lambda>unique_id.
       and_then (deserialize_entry ext fields_info iu fm entry_data) (\<lambda>import_data.
         Inr (objects_to_create @ [import_data],
              AList.update unique_id import_entry_pk import_new_entry_pks))))"

text \<open>Lines 466-482 for one stored node among the existing entries: its extras are
  merged with the imported ones and saved when they changed.\<close>

definition update_node_extras ::
  "externals \<Rightarrow> string \<Rightarrow> (int \<times> fields) list \<Rightarrow> (val \<times> int) list \<Rightarrow> row \<Rightarrow> db \<Rightarrow> error + db" where
  "update_node_extras ext extras_mode_existing existing import_existing_entry_pks node d =
     (case map_of import_existing_entry_pks (attr node ''uuid'') of
        None \<Rightarrow> Inl (KeyError (attr node ''uuid''))
      | Some import_entry_pk \<Rightarrow>
          (case map_of existing import_entry_pk of
             None \<Rightarrow> Inl (KeyError (VInt import_entry_pk))
           | Some entry_data \<Rightarrow>
               (let old_extras = attr node ''extras'';
                    extras = (case map_of entry_data ''extras'' of None \<Rightarrow> VDict [] | Some x \<Rightarrow> x)
                in and_then (merge_extras ext old_extras extras extras_mode_existing)
                     (\<lambda>new_extras.
                        if new_extras \<noteq> old_extras
                        then Inr (d \<lparr> tables := (tables d)(NODE_ENTITY_NAME :=
                                   update_column (tables d NODE_ENTITY_NAME) (fst node)
                                     ''extras'' new_extras) \<rparr>)
                        else Inr d))))"

text \<open>Lines 448-482: the part for nodes only.\<close>

definition store_node_part ::
  "externals \<Rightarrow> reader \<Rightarrow> string \<Rightarrow> string option \<Rightarrow> (int \<times> fields) list \<Rightarrow> fields list \<Rightarrow>
   db \<Rightarrow> error + db" where
  "store_node_part ext r extras_mode_existing unique_identifier existing objects_to_create d =
     (case copy_node_repositories ext (map (\<lambda>obj. attr (0, obj) ''uuid'') objects_to_create) r of
        Some e \<Rightarrow> Inl e
      | None \<Rightarrow>
          if existing = [] then Inr d
          else
            and_then
              (for_each (\<lambda>(import_entry_pk, entry_data) ps.
                           and_then (getitem_uid entry_data unique_identifier)
                             (\<lambda>u. Inr (AList.update u import_entry_pk ps))) existing [])
              (\<lambda>import_existing_entry_pks.
                 for_each (update_node_extras ext extras_mode_existing existing import_existing_entry_pks)
                   (filter (\<lambda>node. attr node ''uuid'' \<in> fst ` set import_existing_entry_pks)
                      (tables d NODE_ENTITY_NAME)) d))"

text \<open>Lines 507-512 for one just-saved row.\<close>

definition record_saved ::
  "string \<Rightarrow> (val \<times> int) list \<Rightarrow> val \<times> int \<Rightarrow> ctx \<Rightarrow> error + ctx" where
  "record_saved entity_name import_new_entry_pks = (\<lambda>(unique_id, new_pk) c.
     (case map_of import_new_entry_pks unique_id of
        None \<Rightarrow> Inl (KeyError unique_id)
      | Some import_entry_pk \<Rightarrow>
          (case foreign_ids_reverse_mappings c entity_name of
             None \<Rightarrow> Inl (KeyError (VStr entity_name))
           | Some m \<Rightarrow>
               Inr (c \<lparr> foreign_ids_reverse_mappings :=
                          (foreign_ids_reverse_mappings c)(entity_name \<mapsto> m(unique_id \<mapsto> new_pk)),
                        ret_dict := append_new (ret_dict c) entity_name (import_entry_pk, new_pk) \<rparr>))))"

definition store_entity_data ::
  "externals \<Rightarrow> reader \<Rightarrow> string \<Rightarrow> string \<Rightarrow> string \<Rightarrow> (string \<rightharpoonup> (int \<rightharpoonup> val)) \<Rightarrow>
   ctx \<times> db \<Rightarrow> error + ctx \<times> db" where
  "store_entity_data ext r entity_name comment_mode extras_mode_existing iu = (\<lambda>(c0, d0).
     (let fields_info = (case map_of (all_fields_info r) entity_name of None \<Rightarrow> [] | Some i \<Rightarrow> i);
          unique_identifier = map_of (unique_identifiers r) entity_name
      in case existing_entries c0 entity_name of
        None \<Rightarrow> Inl (KeyError (VStr entity_name))
      | Some existing \<Rightarrow>
          and_then
            (for_each (store_existing_entry ext entity_name comment_mode unique_identifier fields_info iu)
               existing (c0, d0))
            (\<lambda>(c1, d1).
               case new_entries c1 entity_name of
                 None \<Rightarrow> Inl (KeyError (VStr entity_name))
               | Some new \<Rightarrow>
                   and_then
                     (for_each (collect_new_entry ext unique_identifier fields_info iu
                                  (foreign_ids_reverse_mappings c1)) new ([], []))
                     (\<lambda>(objects_to_create, import_new_entry_pks).
                        and_then
                          (if entity_name = NODE_ENTITY_NAME
                           then store_node_part ext r extras_mode_existing unique_identifier existing
                                  objects_to_create d1
                           else Inr d1)
                          (\<lambda>d2.
                             if objects_to_create = [] then Inr (c1, d2)
                             else
                               (case unique_identifier of
                                  None \<Rightarrow> Inl (KeyError VNone)
                                | Some uid \<Rightarrow>
                                    and_then
                                      (bulk_create ext entity_name (tables d2 entity_name)
                                         objects_to_create)
                                      (\<lambda>rows.
                                         (let d3 = d2 \<lparr> tables := (tables d2)(entity_name := rows) \<rparr>;
                                              just_saved = dict_of
                                                (map (\<lambda>row. (attr row uid, fst row))
                                                   (filter (\<lambda>row. attr row uid
                                                              \<in> fst ` set import_new_entry_pks) rows))
                                          in and_then
                                               (for_each (record_saved entity_name import_new_entry_pks)
                                                  just_saved c1)
                                               (\<lambda>c2. Inr (c2, d3))))))))))"

subsection \<open>Group membership: \<^verbatim>\<open>_add_nodes_to_groups\<close>\<close>

definition add_nodes_to_groups ::
  "nat \<Rightarrow> (string \<times> string list) list \<Rightarrow> id_maps \<Rightarrow> db \<Rightarrow> error + db" where
  "add_nodes_to_groups group_count groups fm d0 =
     (if group_count = 0 then Inr d0
      else
        for_each (\<lambda>(groupuuid, groupnodes) d.
            if groupnodes = [] then Inr d
            else
              (case find (\<lambda>g. attr g ''uuid'' = VStr groupuuid) (tables d GROUP_ENTITY_NAME) of
                 None \<Rightarrow> Inl DoesNotExist
               | Some group_ \<Rightarrow>
                   and_then
                     (for_each (\<lambda>node_uuid pks. and_then (get_id fm NODE_ENTITY_NAME (VStr node_uuid))
                                                   (\<lambda>pk. Inr (pks @ [pk]))) groupnodes [])
                     (\<lambda>nodes_to_store.
                        Inr (d \<lparr> dbgroup_nodes :=
                               dbgroup_nodes d \<union> (\<lambda>n. (fst group_, n)) ` set nodes_to_store \<rparr>))))
          groups d0)"

subsection \<open>The import: \<^verbatim>\<open>import_data_dj\<close>\<close>

text \<open>
  Lines 116-120. \<^verbatim>\<open>group.store()\<close> (of \<^verbatim>\<open>aiida.orm\<close>) persists the group: a new row of
  the group table. It runs before the archive is read and before the transaction.
\<close>

definition group_store :: "fields \<Rightarrow> db \<Rightarrow> orm_group \<times> db" where
  "group_store f d =
     (let rows = tables d GROUP_ENTITY_NAME; pk = fresh_pk rows
      in (OrmGroup (Some pk) f, d \<lparr> tables := (tables d)(GROUP_ENTITY_NAME := rows @ [(pk, f)]) \<rparr>))"

definition check_group :: "orm_group option \<Rightarrow> db \<Rightarrow> error + orm_group option \<times> db" where
  "check_group group' d =
     (case group' of
        None \<Rightarrow> Inr (None, d)
      | Some NotGroup \<Rightarrow> Inl (ImportValidationError Group_must_be_a_Group)
      | Some (OrmGroup (Some pk) f) \<Rightarrow> Inr (group', d)
      | Some (OrmGroup None f) \<Rightarrow> (case group_store f d of (g, d') \<Rightarrow> Inr (Some g, d')))"

text \<open>Lines 130-192 in their order: the first check that raises ends the run.\<close>

definition preflight :: "externals \<Rightarrow> reader \<Rightarrow> bool \<Rightarrow> error option" where
  "preflight ext r ignore_unknown_nodes =
     (case check_version r of
        Some e \<Rightarrow> Some e
      | None \<Rightarrow>
          (case check_dangling (validate_uuid ext) r ignore_unknown_nodes of
             Some e \<Rightarrow> Some e
           | None \<Rightarrow>
               (case check_entity_names r of
                  Some e \<Rightarrow> Some e
                | None \<Rightarrow> check_dependencies r)))"

text \<open>
  \<^verbatim>\<open>with transaction.atomic():\<close> of Django. Leaving the block by an exception rolls the
  database back to its state at entry and the exception propagates; leaving it normally
  commits.
\<close>

definition atomic ::
  "(db \<Rightarrow> (error + 'a \<times> db) option) \<Rightarrow> db \<Rightarrow> ((error + 'a) \<times> db) option" where
  "atomic block d =
     (case block d of
        None \<Rightarrow> None
      | Some (Inl e) \<Rightarrow> Some (Inl e, d)
      | Some (Inr (x, d')) \<Rightarrow> Some (Inr x, d'))"

text \<open>Lines 242-246: \<^verbatim>\<open>pks_for_group\<close>, over the existing and then the new node entries.\<close>

definition pks_for_group :: "ctx \<Rightarrow> error + int list" where
  "pks_for_group c =
     for_each (\<lambda>(pk, v) pks. and_then (getitem v ''uuid'') (\<lambda>u.
                 and_then (get_id (foreign_ids_reverse_mappings c) NODE_ENTITY_NAME u)
                   (\<lambda>p. Inr (pks @ [p]))))
       ((case existing_entries c NODE_ENTITY_NAME of None \<Rightarrow> [] | Some es \<Rightarrow> es)
        @ (case new_entries c NODE_ENTITY_NAME of None \<Rightarrow> [] | Some es \<Rightarrow> es)) []"

text \<open>The report that \<^verbatim>\<open>import_data_dj\<close> returns: \<^verbatim>\<open>ret_dict\<close> with its entry for the
  links.\<close>

type_synonym report =
  "(string \<rightharpoonup> ((int \<times> int) list \<times> (int \<times> int) list)) \<times> (int \<times> int) list option"

text \<open>The block of lines 206-267, run inside the transaction.\<close>

definition import_block ::
  "externals \<Rightarrow> reader \<Rightarrow> bool \<Rightarrow> string \<Rightarrow> string \<Rightarrow> string \<Rightarrow> (string \<rightharpoonup> (int \<rightharpoonup> val)) \<Rightarrow>
   db \<Rightarrow> (error + (report \<times> int list) \<times> db) option" where
  "import_block ext r ignore_unknown_nodes extras_mode_existing extras_mode_new comment_mode iu d0 =
     then_do
       (for_each_res (\<lambda>entity_name. select_entity_data ext entity_name r extras_mode_new) entity_order
          (\<lparr> new_entries = Map.empty, existing_entries = Map.empty,
              foreign_ids_reverse_mappings = Map.empty, ret_dict = Map.empty, ret_link = None \<rparr>, d0))
       (\<lambda>(c1, d1). Some (
          and_then
            (for_each (\<lambda>entity_name. store_entity_data ext r entity_name comment_mode
                                        extras_mode_existing iu) entity_order (c1, d1))
            (\<lambda>(c2, d2).
          and_then (pks_for_group c2) (\<lambda>pks.
          and_then
            (store_node_links (validate_link_label ext) (link_type_of ext) (link_uuids r)
               ignore_unknown_nodes (foreign_ids_reverse_mappings c2) (ret_link c2) d2)
            (\<lambda>(links, d3).
          and_then
            (add_nodes_to_groups (entity_count r GROUP_ENTITY_NAME) (group_uuids r)
               (foreign_ids_reverse_mappings c2) d3)
            (\<lambda>d4. Inr (((ret_dict c2, links), pks), d4)))))))"

text \<open>
  \<^verbatim>\<open>import_data_dj\<close>. The result is the report or the exception, and the database
  afterwards; \<open>None\<close> when the call does not return. The arguments \<^verbatim>\<open>silent\<close> (a
  deprecation warning) and the batch size of the bulk operations have no effect on
  either.
\<close>

definition import_data_dj ::
  "externals \<Rightarrow> string \<Rightarrow> orm_group option \<Rightarrow> bool \<Rightarrow> string \<Rightarrow> string \<Rightarrow> string \<Rightarrow> db \<Rightarrow>
   ((error + report) \<times> db) option" where
  "import_data_dj ext in_path group' ignore_unknown_nodes extras_mode_existing extras_mode_new
     comment_mode d =
     (if extras_mode_new \<notin> {''import'', ''none''}
      then Some (Inl (ImportValidationError (Unknown_extras_mode_new extras_mode_new)), d)
      else
        (case get_reader ext in_path of
           Some e \<Rightarrow> Some (Inl e, d)
         | None \<Rightarrow>
             (case check_group group' d of
                Inl e \<Rightarrow> Some (Inl e, d)
              | Inr (group1, d1) \<Rightarrow>
                  (case open_reader ext in_path of
                     Inl e \<Rightarrow> Some (Inl e, d1)
                   | Inr r \<Rightarrow>
                       (case preflight ext r ignore_unknown_nodes of
                          Some e \<Rightarrow> Some (Inl e, d1)
                        | None \<Rightarrow>
                            (case import_unique_ids_mappings r of
                               Inl e \<Rightarrow> Some (Inl e, d1)
                             | Inr iu \<Rightarrow>
                                 (case atomic (import_block ext r ignore_unknown_nodes
                                                 extras_mode_existing extras_mode_new comment_mode iu) d1 of
                                    None \<Rightarrow> None
                                  | Some (Inl e, d2) \<Rightarrow> Some (Inl e, d2)
                                  | Some (Inr (ret, pks), d2) \<Rightarrow>
                                      (case make_import_group ext group1 pks d2 of
                                         Inl e \<Rightarrow> Some (Inl e, d2)
                                       | Inr (g, d3) \<Rightarrow> Some (Inr ret, d3)))))))))"

subsection \<open>A test archive\<close>

text \<open>
  Concrete data for the closed instances below: an archive reader with the six entity
  names, the metadata of a well-formed archive and the given records, links and group
  memberships; collaborators that accept every archive, take an identifier of 36
  characters as a valid UUID and leave fields and extras as they are; a schema that
  refuses a second group with the same label and type string; and a database without
  rows.
\<close>

definition example_reader ::
  "(string \<Rightarrow> (int \<times> fields) list) \<Rightarrow> link_data list \<Rightarrow> (string \<times> string list) list \<Rightarrow> reader" where
  "example_reader records links groups =
     \<lparr> check_version = None,
       entity_names = entity_order,
       export_data = records,
       link_uuids = links,
       group_uuids = groups,
       unique_identifiers =
         [(USER_ENTITY_NAME, ''email''), (COMPUTER_ENTITY_NAME, ''uuid''), (NODE_ENTITY_NAME, ''uuid''),
          (GROUP_ENTITY_NAME, ''uuid''), (LOG_ENTITY_NAME, ''uuid''), (COMMENT_ENTITY_NAME, ''uuid'')],
       all_fields_info =
         [(USER_ENTITY_NAME, []),
          (COMPUTER_ENTITY_NAME, []),
          (NODE_ENTITY_NAME, [(''user'', [(''requires'', USER_ENTITY_NAME)]),
                              (''dbcomputer'', [(''requires'', COMPUTER_ENTITY_NAME)])]),
          (GROUP_ENTITY_NAME, [(''user'', [(''requires'', USER_ENTITY_NAME)])]),
          (LOG_ENTITY_NAME, [(''dbnode'', [(''requires'', NODE_ENTITY_NAME)])]),
          (COMMENT_ENTITY_NAME, [(''dbnode'', [(''requires'', NODE_ENTITY_NAME)]),
                                 (''user'', [(''requires'', USER_ENTITY_NAME)])])] \<rparr>"

definition example_externals :: "reader \<Rightarrow> externals" where
  "example_externals r =
     \<lparr> validate_uuid = (\<lambda>s. length s = 36),
       validate_link_label = (\<lambda>s. s \<noteq> []),
       link_type_of = (\<lambda>s. if s = ''create'' then Some CREATE
                             else if s = ''return'' then Some RETURN else None),
       get_reader = (\<lambda>path. None),
       open_reader = (\<lambda>path. Inr r),
       DUPL_SUFFIX = (\<lambda>n. '' (Imported #'' @ replicate n (CHR ''I'') @ '')''),
       MAX_GROUPS = 1000,
       MAX_COMPUTERS = 100,
       sanitize_extras = (\<lambda>f. f),
       strip_checkpoints = (\<lambda>f. f),
       deserialize_field = (\<lambda>k v info iu fm. Inr (k, v)),
       merge_extras = (\<lambda>old new mode. Inr old),
       copy_node_repositories = (\<lambda>uuids r. None),
       make_import_group = (\<lambda>g pks d. Inr (group_store [(''label'', VStr ''import'')] d)),
       get_new_uuid = (\<lambda>d. ''00000000-0000-4000-8000-000000000000''),
       integrity_error = (\<lambda>entity_name rows obj. entity_name = GROUP_ENTITY_NAME
          \<and> (\<exists>r \<in> set rows. attr r ''label'' = attr (0, obj) ''label''
                \<and> attr r ''type_string'' = attr (0, obj) ''type_string'')),
       next_pk = (\<lambda>entity_name rows. fresh_pk rows) \<rparr>"

definition empty_db :: db where
  "empty_db = \<lparr> tables = (\<lambda>entity_name. []), dblinks = [], dbgroup_nodes = {} \<rparr>"

section \<open>Properties\<close>

subsection \<open>Link materialization\<close>

lemma proj_out_unique: "(i, ty) \<in> (\<lambda>(i, o', lb, ty). (i, ty)) ` S \<longleftrightarrow> (\<exists>j lb. (i, j, lb, ty) \<in> S)"
  by (auto simp: image_iff split: prod.splits) (blast+)?

lemma proj_out_pair: "(i, lb, ty) \<in> (\<lambda>(i, o', lb, ty). (i, lb, ty)) ` S \<longleftrightarrow> (\<exists>j. (i, j, lb, ty) \<in> S)"
  by (auto simp: image_iff split: prod.splits) (blast+)?

lemma proj_in_unique: "(j, ty) \<in> (\<lambda>(i, o', lb, ty). (o', ty)) ` S \<longleftrightarrow> (\<exists>i lb. (i, j, lb, ty) \<in> S)"
  by (auto simp: image_iff split: prod.splits) (blast+)?

lemma proj_in_pair: "(j, lb, ty) \<in> (\<lambda>(i, o', lb, ty). (o', lb, ty)) ` S \<longleftrightarrow> (\<exists>i. (i, j, lb, ty) \<in> S)"
  by (auto simp: image_iff split: prod.splits) (blast+)?

lemma index_inv_init: "index_inv (init_link_state ls ret)"
  by (simp add: index_inv_def init_link_state_def)

lemma index_inv_accept: "index_inv st \<Longrightarrow> index_inv (accept_link st i j l)"
  by (simp add: index_inv_def accept_link_def)

lemma mem_out_unique: "index_inv st \<Longrightarrow> (i, ty) \<in> existing_outgoing_unique st \<longleftrightarrow> (\<exists>j lb. (i, j, lb, ty) \<in> existing_links st)"
  by (simp only: index_inv_def proj_out_unique)

lemma link_step_Inr:
  assumes "link_step vl lt ign fm nodes st l = Inr st'"
  shows "st' = st \<or> (\<exists>i j. node_id fm (l_input l) = Some i \<and> node_id fm (l_output l) = Some j
            \<and> i \<noteq> j \<and> (i, j, l_label l, l_type l) \<notin> existing_links st \<and> st' = accept_link st i j l)"
proof (cases "node_id fm (l_input l)")
  case None
  with assms show ?thesis by (simp add: link_step_def split: if_splits)
next
  case (Some i)
  note in_id = this
  show ?thesis
  proof (cases "node_id fm (l_output l)")
    case None
    with assms in_id show ?thesis by (simp add: link_step_def split: if_splits)
  next
    case (Some j)
    show ?thesis
    proof (cases "(i, j, l_label l, l_type l) \<in> existing_links st")
      case True
      with assms in_id Some show ?thesis by (simp add: link_step_def)
    next
      case False
      have "i \<noteq> j"
      proof
        assume "i = j"
        with assms in_id Some False show False
          by (simp add: link_step_def split: if_splits option.splits)
      qed
      moreover have "st' = accept_link st i j l"
        using assms in_id Some False
        by (simp add: link_step_def split: if_splits option.splits prod.splits)
      ultimately show ?thesis using in_id Some False by simp
    qed
  qed
qed

lemma link_loop_index_inv:
  "link_loop vl lt ign fm nodes st ls = Inr st' \<Longrightarrow> index_inv st \<Longrightarrow> index_inv st'"
proof (induction ls arbitrary: st)
  case Nil
  then show ?case by simp
next
  case (Cons l ls)
  from Cons.prems(1) obtain st1 where
    s1: "link_step vl lt ign fm nodes st l = Inr st1" and
    r: "link_loop vl lt ign fm nodes st1 ls = Inr st'"
    by (auto split: sum.splits)
  from link_step_Inr[OF s1] Cons.prems(2) have "index_inv st1"
    by (auto simp: index_inv_accept)
  with Cons.IH[OF r] show ?case .
qed

lemma link_loop_existing:
  "link_loop vl lt ign fm nodes st ls = Inr st' \<Longrightarrow>
   existing_links st = A \<union> set (links_to_store st) \<Longrightarrow>
   existing_links st' = A \<union> set (links_to_store st')"
proof (induction ls arbitrary: st)
  case Nil
  then show ?case by simp
next
  case (Cons l ls)
  from Cons.prems(1) obtain st1 where
    s1: "link_step vl lt ign fm nodes st l = Inr st1" and
    r: "link_loop vl lt ign fm nodes st1 ls = Inr st'"
    by (auto split: sum.splits)
  from link_step_Inr[OF s1] consider "st1 = st" | i j where "st1 = accept_link st i j l"
    by blast
  then have "existing_links st1 = A \<union> set (links_to_store st1)"
  proof cases
    case 1
    then show ?thesis using Cons.prems(2) by simp
  next
    case 2
    then show ?thesis using Cons.prems(2) by (simp add: accept_link_def)
  qed
  with Cons.IH[OF r] show ?case .
qed

lemma link_loop_no_self:
  "link_loop vl lt ign fm nodes st ls = Inr st' \<Longrightarrow>
   (i, i, lb, ty) \<in> existing_links st' \<Longrightarrow> (i, i, lb, ty) \<in> existing_links st"
proof (induction ls arbitrary: st)
  case Nil
  then show ?case by simp
next
  case (Cons l ls)
  from Cons.prems(1) obtain st1 where
    s1: "link_step vl lt ign fm nodes st l = Inr st1" and
    r: "link_loop vl lt ign fm nodes st1 ls = Inr st'"
    by (auto split: sum.splits)
  from Cons.IH[OF r Cons.prems(2)] have "(i, i, lb, ty) \<in> existing_links st1" .
  with link_step_Inr[OF s1] show ?case
    by (auto simp: accept_link_def)
qed

lemma link_loop_append:
  "link_loop vl lt ign fm nodes st (xs @ ys) =
     (case link_loop vl lt ign fm nodes st xs of
        Inl e \<Rightarrow> Inl e
      | Inr st' \<Rightarrow> link_loop vl lt ign fm nodes st' ys)"
  by (induction xs arbitrary: st) (auto split: sum.splits)

text \<open>
  Claim C9. A link whose two endpoints resolve and whose resolved 4-tuple (source id,
  target id, label, type) is already among \<^verbatim>\<open>existing_links\<close> (loaded from the link
  table or added by an earlier link of the run) is skipped: the loop body returns with
  the state unchanged, before the label, self-loop, endpoint-type and cardinality checks,
  whatever the label validator, the type lookup and the node table are.
\<close>

theorem duplicate_link_is_skipped:
  assumes "node_id fm (l_input l) = Some in_id"
    and "node_id fm (l_output l) = Some out_id"
    and "(in_id, out_id, l_label l, l_type l) \<in> existing_links st"
  shows "link_step vl lt ign fm nodes st l = Inr st
       \<and> link_loop vl lt ign fm nodes st (l # ls) = link_loop vl lt ign fm nodes st ls"
  using assms by (simp add: link_step_def)

theorem duplicate_link_is_skipped_witness:
  "node_id [NODE_ENTITY_NAME \<mapsto> [VStr ''a'' \<mapsto> 1]] ''a'' = Some 1
   \<and> (1, 1, ''not a label'', ''no type'')
       \<in> existing_links (init_link_state [(1, 1, ''not a label'', ''no type'')] None)
   \<and> link_step (\<lambda>_. False) (\<lambda>_. None) False [NODE_ENTITY_NAME \<mapsto> [VStr ''a'' \<mapsto> 1]] []
         (init_link_state [(1, 1, ''not a label'', ''no type'')] None)
         \<lparr>l_input = ''a'', l_output = ''a'', l_label = ''not a label'', l_type = ''no type''\<rparr>
       = Inr (init_link_state [(1, 1, ''not a label'', ''no type'')] None)"
  using duplicate_link_is_skipped
    [of "[NODE_ENTITY_NAME \<mapsto> [VStr ''a'' \<mapsto> 1]]"
        "\<lparr>l_input = ''a'', l_output = ''a'', l_label = ''not a label'', l_type = ''no type''\<rparr>"
        1 1 "init_link_state [(1, 1, ''not a label'', ''no type'')] None"
        "\<lambda>_. False" "\<lambda>_. None" False "[]" "[]"]
  by (simp add: node_id_def init_link_state_def)

text \<open>
  Claim C8, as amended. A link with an endpoint that the node identifier map does not
  resolve is dropped with the state unchanged when \<^verbatim>\<open>ignore_unknown_nodes\<close> is set, and
  the links after it are processed as if it were not there. Otherwise link
  materialization, having processed the earlier links, ends with the
  \<^verbatim>\<open>ImportValidationError\<close> of line 575, whose message carries the link's input and
  output identifiers, its label and its type.
\<close>

theorem unknown_endpoint_dropped_or_fatal:
  assumes unresolved: "node_id fm (l_input l) = None \<or> node_id fm (l_output l) = None"
    and earlier: "link_loop vl lt ign fm (tables d NODE_ENTITY_NAME)
                    (init_link_state (dblinks d) ret) earlier = Inr st"
  shows "link_step vl lt ign fm nodes st0 l =
           (if ign then Inr st0
            else Inl (ImportValidationError
                   (Unknown_link_nodes (l_input l) (l_output l) (l_label l) (l_type l))))
       \<and> link_loop vl lt ign fm nodes st0 (l # ls) =
           (if ign then link_loop vl lt ign fm nodes st0 ls
            else Inl (ImportValidationError
                   (Unknown_link_nodes (l_input l) (l_output l) (l_label l) (l_type l))))
       \<and> store_node_links vl lt (earlier @ l # ls) ign fm ret d =
           (if ign
            then (case link_loop vl lt ign fm (tables d NODE_ENTITY_NAME) st ls of
                    Inl e \<Rightarrow> Inl e
                  | Inr st' \<Rightarrow> Inr (ret_links st', d \<lparr> dblinks := dblinks d @ links_to_store st' \<rparr>))
            else Inl (ImportValidationError
                   (Unknown_link_nodes (l_input l) (l_output l) (l_label l) (l_type l))))"
proof -
  have stepT: "\<And>nodes st0. link_step vl lt True fm nodes st0 l = Inr st0"
    using unresolved by (auto simp: link_step_def split: option.splits)
  have stepF: "\<And>nodes st0. link_step vl lt False fm nodes st0 l =
      Inl (ImportValidationError
             (Unknown_link_nodes (l_input l) (l_output l) (l_label l) (l_type l)))"
    using unresolved by (auto simp: link_step_def split: option.splits)
  have len: "length (earlier @ l # ls) \<noteq> 0" by simp
  show ?thesis
  proof (cases ign)
    case True
    with earlier have e: "link_loop vl lt True fm (tables d NODE_ENTITY_NAME)
                    (init_link_state (dblinks d) ret) earlier = Inr st" by simp
    show ?thesis
      unfolding store_node_links_def link_loop_append
      using True e by (simp add: stepT)
  next
    case False
    with earlier have e: "link_loop vl lt False fm (tables d NODE_ENTITY_NAME)
                    (init_link_state (dblinks d) ret) earlier = Inr st" by simp
    show ?thesis
      unfolding store_node_links_def link_loop_append
      using False e by (simp add: stepF)
  qed
qed

theorem unknown_endpoint_dropped_or_fatal_witness:
  "node_id Map.empty ''a'' = None
   \<and> link_loop (\<lambda>_. True) (\<lambda>_. Some CREATE) False Map.empty (tables empty_db NODE_ENTITY_NAME)
        (init_link_state (dblinks empty_db) None) [] = Inr (init_link_state [] None)
   \<and> link_step (\<lambda>_. True) (\<lambda>_. Some CREATE) True Map.empty [] (init_link_state [] None)
         \<lparr>l_input = ''a'', l_output = ''b'', l_label = ''x'', l_type = ''create''\<rparr>
       = Inr (init_link_state [] None)
   \<and> link_step (\<lambda>_. True) (\<lambda>_. Some CREATE) False Map.empty [] (init_link_state [] None)
         \<lparr>l_input = ''a'', l_output = ''b'', l_label = ''x'', l_type = ''create''\<rparr>
       = Inl (ImportValidationError (Unknown_link_nodes ''a'' ''b'' ''x'' ''create''))
   \<and> store_node_links (\<lambda>_. True) (\<lambda>_. Some CREATE)
         [\<lparr>l_input = ''a'', l_output = ''b'', l_label = ''x'', l_type = ''create''\<rparr>]
         True Map.empty None empty_db
       = Inr (None, empty_db)
   \<and> store_node_links (\<lambda>_. True) (\<lambda>_. Some CREATE)
         [\<lparr>l_input = ''a'', l_output = ''b'', l_label = ''x'', l_type = ''create''\<rparr>]
         False Map.empty None empty_db
       = Inl (ImportValidationError (Unknown_link_nodes ''a'' ''b'' ''x'' ''create''))"
proof -
  let ?l = "\<lparr>l_input = ''a'', l_output = ''b'', l_label = ''x'', l_type = ''create''\<rparr>"
  have u: "node_id Map.empty (l_input ?l) = None \<or> node_id Map.empty (l_output ?l) = None"
    by (simp add: node_id_def)
  have eT: "link_loop (\<lambda>_. True) (\<lambda>_. Some CREATE) True Map.empty (tables empty_db NODE_ENTITY_NAME)
        (init_link_state (dblinks empty_db) None) [] = Inr (init_link_state [] None)"
    by (simp add: empty_db_def)
  have eF: "link_loop (\<lambda>_. True) (\<lambda>_. Some CREATE) False Map.empty (tables empty_db NODE_ENTITY_NAME)
        (init_link_state (dblinks empty_db) None) [] = Inr (init_link_state [] None)"
    by (simp add: empty_db_def)
  from unknown_endpoint_dropped_or_fatal[OF u eT, of "[]" "init_link_state [] None" "[]"]
       unknown_endpoint_dropped_or_fatal[OF u eF, of "[]" "init_link_state [] None" "[]"] eF
  show ?thesis
    by (simp add: node_id_def init_link_state_def empty_db_def)
qed

lemma mem_out_pair: "index_inv st \<Longrightarrow> (i, lb, ty) \<in> existing_outgoing_unique_pair st \<longleftrightarrow> (\<exists>j. (i, j, lb, ty) \<in> existing_links st)"
  by (simp only: index_inv_def proj_out_pair)

lemma mem_in_unique: "index_inv st \<Longrightarrow> (j, ty) \<in> existing_incoming_unique st \<longleftrightarrow> (\<exists>i lb. (i, j, lb, ty) \<in> existing_links st)"
  by (simp only: index_inv_def proj_in_unique)

lemma mem_in_pair: "index_inv st \<Longrightarrow> (j, lb, ty) \<in> existing_incoming_unique_pair st \<longleftrightarrow> (\<exists>i. (i, j, lb, ty) \<in> existing_links st)"
  by (simp only: index_inv_def proj_in_pair)

lemma link_step_cardinality:
  assumes "node_id fm (l_input l) = Some in_id" and "node_id fm (l_output l) = Some out_id"
    and "(in_id, out_id, l_label l, l_type l) \<notin> existing_links st"
    and "vl (l_label l)"
    and "get_by_pk nodes in_id = Some source" and "get_by_pk nodes out_id = Some target"
    and "attr source ''uuid'' \<noteq> attr target ''uuid''"
    and "lt (l_type l) = Some link_type"
    and "link_mapping link_type = (type_source, type_target, outdegree, indegree)"
    and "prefix type_source (node_type source)" and "prefix type_target (node_type target)"
  shows "link_step vl lt ign fm nodes st l =
      (if outdegree = unique \<and> (in_id, l_type l) \<in> existing_outgoing_unique st
       then Inl (ImportValidationError (Outgoing_exists (attr source ''uuid'') link_type))
       else if outdegree = unique_pair
               \<and> (in_id, l_label l, l_type l) \<in> existing_outgoing_unique_pair st
       then Inl (ImportValidationError
              (Outgoing_label_exists (attr source ''uuid'') link_type (l_label l)))
       else if indegree = unique \<and> (out_id, l_type l) \<in> existing_incoming_unique st
       then Inl (ImportValidationError (Incoming_exists (attr target ''uuid'') link_type))
       else if indegree = unique_pair
               \<and> (out_id, l_label l, l_type l) \<in> existing_incoming_unique_pair st
       then Inl (ImportValidationError
              (Incoming_label_exists (attr target ''uuid'') link_type (l_label l)))
       else Inr (accept_link st in_id out_id l))"
  using assms by (simp add: link_step_def)

text \<open>
  Claim C3. Let \<open>st\<close> be the loop state after the earlier links of the run, so that
  \<^verbatim>\<open>existing_links\<close> holds the stored links and those accepted so far. For a link
  that is not an exact duplicate and has passed the label, self-loop and endpoint-type
  checks: out-degree (in-degree) \<open>unique\<close> raises when the source (target) has any
  outgoing (incoming) existing link of the same type; \<open>unique_pair\<close> raises when one of
  the same type and label exists in that direction; \<open>unique_triple\<close> adds no
  constraint; otherwise the link is accepted, joins the batch and \<^verbatim>\<open>existing_links\<close>,
  and the index sets stay the projections of \<^verbatim>\<open>existing_links\<close>, so the following
  links are checked against it.
\<close>

theorem cardinality_validation:
  assumes run: "link_loop vl lt ign fm nodes (init_link_state stored ret) earlier = Inr st"
    and ids: "node_id fm (l_input l) = Some in_id" "node_id fm (l_output l) = Some out_id"
    and new: "(in_id, out_id, l_label l, l_type l) \<notin> existing_links st"
    and label: "vl (l_label l)"
    and nodes: "get_by_pk nodes in_id = Some source" "get_by_pk nodes out_id = Some target"
    and noself: "attr source ''uuid'' \<noteq> attr target ''uuid''"
    and ty: "lt (l_type l) = Some link_type"
    and mapping: "link_mapping link_type = (type_source, type_target, outdegree, indegree)"
    and types: "prefix type_source (node_type source)" "prefix type_target (node_type target)"
  shows "existing_links st = set stored \<union> set (links_to_store st)
    \<and> link_step vl lt ign fm nodes st l =
      (if outdegree = unique \<and> (\<exists>j lb. (in_id, j, lb, l_type l) \<in> existing_links st)
       then Inl (ImportValidationError (Outgoing_exists (attr source ''uuid'') link_type))
       else if outdegree = unique_pair
               \<and> (\<exists>j. (in_id, j, l_label l, l_type l) \<in> existing_links st)
       then Inl (ImportValidationError
              (Outgoing_label_exists (attr source ''uuid'') link_type (l_label l)))
       else if indegree = unique \<and> (\<exists>i lb. (i, out_id, lb, l_type l) \<in> existing_links st)
       then Inl (ImportValidationError (Incoming_exists (attr target ''uuid'') link_type))
       else if indegree = unique_pair
               \<and> (\<exists>i. (i, out_id, l_label l, l_type l) \<in> existing_links st)
       then Inl (ImportValidationError
              (Incoming_label_exists (attr target ''uuid'') link_type (l_label l)))
       else Inr (accept_link st in_id out_id l))
    \<and> existing_links (accept_link st in_id out_id l) =
        insert (in_id, out_id, l_label l, l_type l) (existing_links st)
    \<and> links_to_store (accept_link st in_id out_id l) =
        links_to_store st @ [(in_id, out_id, l_label l, l_type l)]
    \<and> (in_id, l_type l) \<in> existing_outgoing_unique (accept_link st in_id out_id l)
    \<and> (in_id, l_label l, l_type l) \<in> existing_outgoing_unique_pair (accept_link st in_id out_id l)
    \<and> (out_id, l_type l) \<in> existing_incoming_unique (accept_link st in_id out_id l)
    \<and> (out_id, l_label l, l_type l) \<in> existing_incoming_unique_pair (accept_link st in_id out_id l)
    \<and> index_inv (accept_link st in_id out_id l)"
proof -
  have inv: "index_inv st"
    using link_loop_index_inv[OF run index_inv_init] .
  have ex: "existing_links st = set stored \<union> set (links_to_store st)"
    by (rule link_loop_existing[OF run]) (simp add: init_link_state_def)
  have step: "link_step vl lt ign fm nodes st l =
      (if outdegree = unique \<and> (\<exists>j lb. (in_id, j, lb, l_type l) \<in> existing_links st)
       then Inl (ImportValidationError (Outgoing_exists (attr source ''uuid'') link_type))
       else if outdegree = unique_pair
               \<and> (\<exists>j. (in_id, j, l_label l, l_type l) \<in> existing_links st)
       then Inl (ImportValidationError
              (Outgoing_label_exists (attr source ''uuid'') link_type (l_label l)))
       else if indegree = unique \<and> (\<exists>i lb. (i, out_id, lb, l_type l) \<in> existing_links st)
       then Inl (ImportValidationError (Incoming_exists (attr target ''uuid'') link_type))
       else if indegree = unique_pair
               \<and> (\<exists>i. (i, out_id, l_label l, l_type l) \<in> existing_links st)
       then Inl (ImportValidationError
              (Incoming_label_exists (attr target ''uuid'') link_type (l_label l)))
       else Inr (accept_link st in_id out_id l))"
    unfolding link_step_cardinality[where vl=vl and lt=lt and ign=ign, OF ids new label nodes noself ty mapping types]
      mem_out_unique[OF inv] mem_out_pair[OF inv] mem_in_unique[OF inv] mem_in_pair[OF inv]
    by (rule refl)
  have acc: "existing_links (accept_link st in_id out_id l) =
        insert (in_id, out_id, l_label l, l_type l) (existing_links st)"
    "links_to_store (accept_link st in_id out_id l) =
        links_to_store st @ [(in_id, out_id, l_label l, l_type l)]"
    "(in_id, l_type l) \<in> existing_outgoing_unique (accept_link st in_id out_id l)"
    "(in_id, l_label l, l_type l) \<in> existing_outgoing_unique_pair (accept_link st in_id out_id l)"
    "(out_id, l_type l) \<in> existing_incoming_unique (accept_link st in_id out_id l)"
    "(out_id, l_label l, l_type l) \<in> existing_incoming_unique_pair (accept_link st in_id out_id l)"
    by (simp_all add: accept_link_def)
  from ex step acc index_inv_accept[OF inv] show ?thesis by blast
qed

theorem cardinality_validation_witness:
  "link_loop (\<lambda>s. s \<noteq> []) (\<lambda>s. if s = ''create'' then Some CREATE else None) False
      [NODE_ENTITY_NAME \<mapsto> [VStr ''c'' \<mapsto> 1, VStr ''d'' \<mapsto> 2, VStr ''e'' \<mapsto> 3]]
      [(1, [(''uuid'', VStr ''c''), (''node_type'', VStr ''process.calculation.calcjob.'')]),
       (2, [(''uuid'', VStr ''d''), (''node_type'', VStr ''data.int.'')]),
       (3, [(''uuid'', VStr ''e''), (''node_type'', VStr ''data.int.'')])]
      (init_link_state [] None)
      [\<lparr>l_input = ''c'', l_output = ''d'', l_label = ''out'', l_type = ''create''\<rparr>]
    = Inr (accept_link (init_link_state [] None) 1 2
             \<lparr>l_input = ''c'', l_output = ''d'', l_label = ''out'', l_type = ''create''\<rparr>)
   \<and> link_step (\<lambda>s. s \<noteq> []) (\<lambda>s. if s = ''create'' then Some CREATE else None) False
      [NODE_ENTITY_NAME \<mapsto> [VStr ''c'' \<mapsto> 1, VStr ''d'' \<mapsto> 2, VStr ''e'' \<mapsto> 3]]
      [(1, [(''uuid'', VStr ''c''), (''node_type'', VStr ''process.calculation.calcjob.'')]),
       (2, [(''uuid'', VStr ''d''), (''node_type'', VStr ''data.int.'')]),
       (3, [(''uuid'', VStr ''e''), (''node_type'', VStr ''data.int.'')])]
      (accept_link (init_link_state [] None) 1 2
             \<lparr>l_input = ''c'', l_output = ''d'', l_label = ''out'', l_type = ''create''\<rparr>)
      \<lparr>l_input = ''c'', l_output = ''e'', l_label = ''out'', l_type = ''create''\<rparr>
    = Inl (ImportValidationError (Outgoing_label_exists (VStr ''c'') CREATE ''out''))"
proof -
  let ?vl = "\<lambda>s::string. s \<noteq> []"
  let ?lt = "\<lambda>s. if s = ''create'' then Some CREATE else None"
  let ?fm = "[NODE_ENTITY_NAME \<mapsto> [VStr ''c'' \<mapsto> 1::int, VStr ''d'' \<mapsto> 2, VStr ''e'' \<mapsto> 3]]"
  let ?c = "(1::int, [(''uuid'', VStr ''c''), (''node_type'', VStr ''process.calculation.calcjob.'')])"
  let ?d = "(2::int, [(''uuid'', VStr ''d''), (''node_type'', VStr ''data.int.'')])"
  let ?e = "(3::int, [(''uuid'', VStr ''e''), (''node_type'', VStr ''data.int.'')])"
  let ?nodes = "[?c, ?d, ?e]"
  let ?l1 = "\<lparr>l_input = ''c'', l_output = ''d'', l_label = ''out'', l_type = ''create''\<rparr>"
  let ?l2 = "\<lparr>l_input = ''c'', l_output = ''e'', l_label = ''out'', l_type = ''create''\<rparr>"
  let ?st = "accept_link (init_link_state [] None) 1 2 ?l1"
  have run: "link_loop ?vl ?lt False ?fm ?nodes (init_link_state [] None) [?l1] = Inr ?st"
    by (simp add: link_step_def node_id_def NODE_ENTITY_NAME_def get_by_pk_def attr_def
        node_type_def init_link_state_def calculation_node_types_def data_node_types_def)
  have ids: "node_id ?fm (l_input ?l2) = Some 1" "node_id ?fm (l_output ?l2) = Some 3"
    by (simp_all add: node_id_def)
  have new: "(1, 3, l_label ?l2, l_type ?l2) \<notin> existing_links ?st"
    by (simp add: accept_link_def init_link_state_def)
  have label: "?vl (l_label ?l2)" by simp
  have nodes: "get_by_pk ?nodes 1 = Some ?c" "get_by_pk ?nodes 3 = Some ?e"
    by (simp_all add: get_by_pk_def)
  have noself: "attr ?c ''uuid'' \<noteq> attr ?e ''uuid''"
    by (simp add: attr_def)
  have ty: "?lt (l_type ?l2) = Some CREATE" by simp
  have mapping: "link_mapping CREATE = (calculation_node_types, data_node_types, unique_pair, unique)"
    by simp
  have types: "prefix calculation_node_types (node_type ?c)" "prefix data_node_types (node_type ?e)"
    by (simp_all add: node_type_def attr_def calculation_node_types_def data_node_types_def)
  have "\<exists>j. (1, j, l_label ?l2, l_type ?l2) \<in> existing_links ?st"
    by (simp add: accept_link_def init_link_state_def)
  with cardinality_validation[where vl="?vl" and lt="?lt" and ign=False,
      OF run ids new label nodes noself ty mapping types]
  have "link_step ?vl ?lt False ?fm ?nodes ?st ?l2
      = Inl (ImportValidationError (Outgoing_label_exists (attr ?c ''uuid'') CREATE (l_label ?l2)))"
    by simp
  with run show ?thesis by (simp add: attr_def)
qed

lemma self_loop_step:
  assumes "l_input l = l_output l" and "node_id fm (l_input l) = Some i"
    and "(i, i, l_label l, l_type l) \<notin> existing_links st"
  shows "link_step vl lt ign fm nodes st l =
      (if \<not> vl (l_label l) then Inl (ImportValidationError Link_label_invalid)
       else if get_by_pk nodes i = None then Inl DoesNotExist
       else Inl (ImportValidationError Link_to_oneself))"
  using assms by (auto simp: link_step_def split: option.splits)

text \<open>
  Claim C4, as amended. A self-loop link record whose identifier resolves in the node
  identifier map and whose resolved 4-tuple is not in the link table makes link
  materialization raise, whatever its type: the label error, \<^verbatim>\<open>DoesNotExist\<close> or
  "Cannot add a link to oneself" (lemma \<open>self_loop_step\<close>), unless an earlier link has
  raised already.
\<close>

theorem self_loop_raises:
  assumes mem: "l \<in> set links" and self: "l_input l = l_output l"
    and res: "node_id fm (l_input l) = Some i"
    and new: "(i, i, l_label l, l_type l) \<notin> set (dblinks d)"
  shows "\<exists>e. store_node_links vl lt links ign fm ret d = Inl e"
proof -
  from mem obtain pre post where sp: "links = pre @ l # post"
    by (auto dest: split_list)
  let ?run = "link_loop vl lt ign fm (tables d NODE_ENTITY_NAME)"
  let ?st0 = "init_link_state (dblinks d) ret"
  have "\<exists>e. ?run ?st0 links = Inl e"
  proof (cases "?run ?st0 pre")
    case (Inl e)
    then show ?thesis by (simp add: sp link_loop_append)
  next
    case (Inr st)
    have "(i, i, l_label l, l_type l) \<notin> existing_links st"
    proof
      assume "(i, i, l_label l, l_type l) \<in> existing_links st"
      from link_loop_no_self[OF Inr this] new show False
        by (simp add: init_link_state_def)
    qed
    from self_loop_step[where vl=vl and lt=lt, OF self res this]
    have "\<exists>e. link_step vl lt ign fm (tables d NODE_ENTITY_NAME) st l = Inl e"
      by simp
    then show ?thesis using Inr by (auto simp: sp link_loop_append)
  qed
  moreover have "length links \<noteq> 0" using mem by auto
  ultimately show ?thesis by (auto simp: store_node_links_def)
qed

theorem self_loop_raises_witness:
  "\<lparr>l_input = ''a'', l_output = ''a'', l_label = ''x'', l_type = ''return''\<rparr>
     \<in> set [\<lparr>l_input = ''a'', l_output = ''a'', l_label = ''x'', l_type = ''return''\<rparr>]
   \<and> node_id [NODE_ENTITY_NAME \<mapsto> [VStr ''a'' \<mapsto> 1]] ''a'' = Some 1
   \<and> (1, 1, ''x'', ''return'') \<notin> set (dblinks \<lparr>tables = (\<lambda>_. [])(NODE_ENTITY_NAME :=
           [(1, [(''uuid'', VStr ''a''), (''node_type'', VStr ''data.int.'')])]),
         dblinks = [], dbgroup_nodes = {}\<rparr>)
   \<and> store_node_links (\<lambda>_. True) (\<lambda>_. Some RETURN)
        [\<lparr>l_input = ''a'', l_output = ''a'', l_label = ''x'', l_type = ''return''\<rparr>]
        False [NODE_ENTITY_NAME \<mapsto> [VStr ''a'' \<mapsto> 1]] None
        \<lparr>tables = (\<lambda>_. [])(NODE_ENTITY_NAME :=
           [(1, [(''uuid'', VStr ''a''), (''node_type'', VStr ''data.int.'')])]),
         dblinks = [], dbgroup_nodes = {}\<rparr>
       = Inl (ImportValidationError Link_to_oneself)"
  using self_loop_raises
    [of "\<lparr>l_input = ''a'', l_output = ''a'', l_label = ''x'', l_type = ''return''\<rparr>"
        "[\<lparr>l_input = ''a'', l_output = ''a'', l_label = ''x'', l_type = ''return''\<rparr>]"
        "[NODE_ENTITY_NAME \<mapsto> [VStr ''a'' \<mapsto> 1]]" 1
        "\<lparr>tables = (\<lambda>_. [])(NODE_ENTITY_NAME :=
           [(1, [(''uuid'', VStr ''a''), (''node_type'', VStr ''data.int.'')])]),
         dblinks = [], dbgroup_nodes = {}\<rparr>"
        "\<lambda>_. True" "\<lambda>_. Some RETURN" False None]
  by (simp add: store_node_links_def link_step_def node_id_def get_by_pk_def attr_def
      init_link_state_def)

text \<open>
  Claim C4 as stated fails: a self-loop record on an identifier that the node identifier
  map does not resolve is dropped without an error when \<^verbatim>\<open>ignore_unknown_nodes\<close> is
  set (lines 572-574).
\<close>

theorem self_loop_counterexample:
  "store_node_links (\<lambda>_. True) (\<lambda>_. Some RETURN)
     [\<lparr>l_input = ''a'', l_output = ''a'', l_label = ''x'', l_type = ''return''\<rparr>]
     True Map.empty None \<lparr>tables = (\<lambda>_. []), dblinks = [], dbgroup_nodes = {}\<rparr>
   = Inr (None, \<lparr>tables = (\<lambda>_. []), dblinks = [], dbgroup_nodes = {}\<rparr>)"
  by (simp add: store_node_links_def link_step_def node_id_def init_link_state_def)

subsection \<open>Unfolding the model on concrete data\<close>

lemmas example_defs =
  example_reader_def example_externals_def empty_db_def

lemmas name_defs = USER_ENTITY_NAME_def COMPUTER_ENTITY_NAME_def NODE_ENTITY_NAME_def
  GROUP_ENTITY_NAME_def LOG_ENTITY_NAME_def COMMENT_ENTITY_NAME_def entity_order_def

lemmas preflight_defs = preflight_def check_dangling_def unknown_nodes_def linked_nodes_def
  group_nodes_def import_nodes_uuid_def iter_node_uuids_def check_entity_names_def
  check_dependencies_def check_dependencies_of_def import_unique_ids_mappings_def unique_ids_of_def
  iter_entity_fields_def entity_count_def dict_of_def getitem_def and_then_def then_do_def
  List.map_filter_def

lemmas select_defs = select_entity_data_def select_record_def setdefault_def relevant_db_entries_def
  set_entry_def rename_group_def rename_computer_def filter_exists_def getitem_uid_def

lemmas store_defs = store_entity_data_def store_existing_entry_def collect_new_entry_def
  store_node_part_def update_node_extras_def record_saved_def deserialize_entry_def
  append_existing_def append_new_def get_id_def fresh_pk_def update_column_def attr_def
  merge_comment_def overwrite_comment_def

lemmas run_defs = import_data_dj_def import_block_def atomic_def check_group_def group_store_def
  pks_for_group_def add_nodes_to_groups_def store_node_links_def link_step_def node_id_def
  init_link_state_def accept_link_def get_by_pk_def node_type_def

subsection \<open>Pre-flight validation and argument checks\<close>

text \<open>
  Claim C10. The dangling-reference pre-check subtracts the archive's node identifiers
  from the link endpoints and group members that pass \<^verbatim>\<open>validate_uuid\<close> (lines
  143-150): an identifier that does not pass is not in the set of unknown nodes, which is
  the only thing the pre-check reports, also when \<^verbatim>\<open>ignore_unknown_nodes\<close> is false.
\<close>

theorem invalid_uuid_never_dangling:
  assumes "\<not> vu x"
  shows "x \<notin> unknown_nodes vu r
       \<and> check_dangling vu r ign =
           (if unknown_nodes vu r \<noteq> {} \<and> \<not> ign
            then Some (DanglingLinkError (unknown_nodes vu r)) else None)"
  using assms by (simp add: unknown_nodes_def check_dangling_def)

theorem invalid_uuid_never_dangling_witness:
  "\<not> (\<lambda>s. length s = 36) ''n1''
   \<and> ''n1'' \<notin> unknown_nodes (\<lambda>s. length s = 36)
        (example_reader (\<lambda>_. [])
           [\<lparr>l_input = ''n1'', l_output = ''n2'', l_label = ''x'', l_type = ''create''\<rparr>]
           [(''g1'', [''n3''])])
   \<and> check_dangling (\<lambda>s. length s = 36)
        (example_reader (\<lambda>_. [])
           [\<lparr>l_input = ''n1'', l_output = ''n2'', l_label = ''x'', l_type = ''create''\<rparr>]
           [(''g1'', [''n3''])]) False = None"
  using invalid_uuid_never_dangling
    [of "\<lambda>s. length s = 36" "''n1''"
        "example_reader (\<lambda>_. [])
           [\<lparr>l_input = ''n1'', l_output = ''n2'', l_label = ''x'', l_type = ''create''\<rparr>]
           [(''g1'', [''n3''])]" False]
  by (auto simp: preflight_defs example_defs name_defs)

text \<open>
  Claim C7, as amended. An \<^verbatim>\<open>extras_mode_new\<close> other than \<^verbatim>\<open>'import'\<close> and
  \<^verbatim>\<open>'none'\<close> raises the validation error first: whatever the collaborators, the
  archive and the database are, the call returns the error and the database as it was.
\<close>

theorem extras_mode_new_validated_first:
  assumes "extras_mode_new \<noteq> ''import''" and "extras_mode_new \<noteq> ''none''"
  shows "import_data_dj ext in_path group' ign extras_mode_existing extras_mode_new comment_mode d
       = Some (Inl (ImportValidationError (Unknown_extras_mode_new extras_mode_new)), d)"
  using assms by (simp add: import_data_dj_def)

theorem extras_mode_new_validated_first_witness:
  "''all'' \<noteq> ''import'' \<and> ''all'' \<noteq> ''none''
   \<and> import_data_dj (example_externals (example_reader (\<lambda>_. []) [] [])) ''archive.aiida''
        (Some (OrmGroup None [(''label'', VStr ''mine'')])) False ''kcl'' ''all'' ''newest'' empty_db
      = Some (Inl (ImportValidationError (Unknown_extras_mode_new ''all'')), empty_db)"
  using extras_mode_new_validated_first
    [of "''all''" "example_externals (example_reader (\<lambda>_. []) [] [])" "''archive.aiida''"
        "Some (OrmGroup None [(''label'', VStr ''mine'')])" False "''kcl''" "''newest''" empty_db]
  by simp

text \<open>
  Claim C7 as stated fails for the other two modes: \<^verbatim>\<open>import_data_dj\<close> checks neither
  \<^verbatim>\<open>extras_mode_existing\<close> nor \<^verbatim>\<open>comment_mode\<close> (lines 104-113). With the values
  \<^verbatim>\<open>'xyz'\<close> and \<^verbatim>\<open>'latest'\<close> the import of an archive without records returns its
  report and commits.
\<close>

theorem modes_counterexample:
  "import_data_dj (example_externals (example_reader (\<lambda>_. []) [] [])) ''archive.aiida'' None False
     ''xyz'' ''import'' ''latest'' empty_db
   = Some (Inr (Map.empty, None),
           empty_db \<lparr> tables := (tables empty_db)(GROUP_ENTITY_NAME := [(1, [(''label'', VStr ''import'')])]) \<rparr>)"
  by (simp add: run_defs store_defs select_defs preflight_defs example_defs name_defs upt_rec)

subsection \<open>The transaction\<close>

lemma atomic_rollback: "atomic block d = Some (Inl e, d') \<Longrightarrow> d' = d"
  by (auto simp: atomic_def split: option.splits sum.splits)

lemma check_group_db:
  "check_group group' d = Inr (g1, d1) \<Longrightarrow>
   d1 = d \<or> (\<exists>f. group' = Some (OrmGroup None f) \<and> d1 = snd (group_store f d))"
  by (auto simp: check_group_def split: option.splits orm_group.splits prod.splits)

text \<open>
  Claim C1, as amended. When a run ends with an exception, the database afterwards is
  the database before the run, or that database with the caller's group stored (a group
  passed unstored is stored at line 120, before the pre-flight validation and outside the
  transaction), unless the transaction has committed and the exception comes from
  \<^verbatim>\<open>_make_import_group\<close>. So everything written during classification,
  materialization, link materialization and group membership is rolled back.
\<close>

theorem failed_run_rolls_back:
  assumes "import_data_dj ext in_path group' ign extras_mode_existing extras_mode_new comment_mode d
           = Some (Inl e, d')"
  shows "d' = d
       \<or> (\<exists>f. group' = Some (OrmGroup None f) \<and> d' = snd (group_store f d))
       \<or> (\<exists>r iu g1 d1 ret pks.
             check_group group' d = Inr (g1, d1)
             \<and> open_reader ext in_path = Inr r
             \<and> import_unique_ids_mappings r = Inr iu
             \<and> atomic (import_block ext r ign extras_mode_existing extras_mode_new comment_mode iu) d1
               = Some (Inr (ret, pks), d')
             \<and> make_import_group ext g1 pks d' = Inl e)"
proof (cases "extras_mode_new \<notin> {''import'', ''none''}")
  case True
  with assms show ?thesis by (simp add: import_data_dj_def)
next
  case False
  then have mode: "(extras_mode_new \<noteq> ''import'' \<and> extras_mode_new \<noteq> ''none'') = False"
    by auto
  show ?thesis
  proof (cases "get_reader ext in_path")
    case (Some a)
    with assms mode show ?thesis by (simp add: import_data_dj_def)
  next
    case None
    note gr = this
    show ?thesis
    proof (cases "check_group group' d")
      case (Inl a)
      with assms gr show ?thesis by (simp add: import_data_dj_def mode)
    next
      case (Inr p)
      then obtain g1 d1 where cg: "check_group group' d = Inr (g1, d1)" by (cases p) auto
      from check_group_db[OF cg]
      have d1: "d1 = d \<or> (\<exists>f. group' = Some (OrmGroup None f) \<and> d1 = snd (group_store f d))" .
      show ?thesis
      proof (cases "open_reader ext in_path")
        case (Inl a)
        with assms gr cg d1 show ?thesis by (auto simp: import_data_dj_def mode)
      next
        case (Inr r)
        note rd = this
        show ?thesis
        proof (cases "preflight ext r ign")
          case (Some a)
          with assms gr cg d1 rd show ?thesis by (auto simp: import_data_dj_def mode)
        next
          case None
          note pf = this
          show ?thesis
          proof (cases "import_unique_ids_mappings r")
            case (Inl a)
            with assms gr cg d1 rd pf show ?thesis by (auto simp: import_data_dj_def mode)
          next
            case (Inr iu)
            note iu = this
            let ?tx = "atomic (import_block ext r ign extras_mode_existing extras_mode_new comment_mode iu) d1"
            from assms gr cg rd pf iu obtain res d2 where tx: "?tx = Some (res, d2)"
              by (cases ?tx) (auto simp: import_data_dj_def mode)
            show ?thesis
            proof (cases res)
              case (Inl a)
              with tx have "d2 = d1" by (auto dest: atomic_rollback)
              moreover from assms gr cg rd pf iu tx Inl have "d' = d2"
                by (simp add: import_data_dj_def mode)
              ultimately show ?thesis using d1 by auto
            next
              case (Inr x)
              then obtain ret pks where x: "res = Inr (ret, pks)" by (cases x) auto
              from assms gr cg rd pf iu tx x
              have "make_import_group ext g1 pks d2 = Inl e \<and> d' = d2"
                by (auto simp: import_data_dj_def mode split: sum.splits)
              with tx x cg rd iu show ?thesis by blast
            qed
          qed
        qed
      qed
    qed
  qed
qed

text \<open>
  An instance of the rollback: the archive holds one node and a self-loop link on it.
  The node is stored and gets the primary key 1 before the links are read (first lemma);
  link materialization then raises, and the database is the one before the run.
\<close>

lemma entities_materialized_before_links:
  "then_do
     (for_each_res (\<lambda>entity_name. select_entity_data
         (example_externals (example_reader
            ((\<lambda>_. [])(NODE_ENTITY_NAME :=
               [(7, [(''uuid'', VStr ''11111111-1111-4111-8111-111111111111''),
                     (''node_type'', VStr ''data.int.Int.'')])])) [] []))
         entity_name
         (example_reader
            ((\<lambda>_. [])(NODE_ENTITY_NAME :=
               [(7, [(''uuid'', VStr ''11111111-1111-4111-8111-111111111111''),
                     (''node_type'', VStr ''data.int.Int.'')])])) [] [])
         ''import'') entity_order
        (\<lparr> new_entries = Map.empty, existing_entries = Map.empty,
            foreign_ids_reverse_mappings = Map.empty, ret_dict = Map.empty, ret_link = None \<rparr>, empty_db))
     (\<lambda>(c1, d1). Some (and_then
        (for_each (\<lambda>entity_name. store_entity_data
            (example_externals (example_reader
              ((\<lambda>_. [])(NODE_ENTITY_NAME :=
                 [(7, [(''uuid'', VStr ''11111111-1111-4111-8111-111111111111''),
                       (''node_type'', VStr ''data.int.Int.'')])])) [] []))
            (example_reader
              ((\<lambda>_. [])(NODE_ENTITY_NAME :=
                 [(7, [(''uuid'', VStr ''11111111-1111-4111-8111-111111111111''),
                       (''node_type'', VStr ''data.int.Int.'')])])) [] [])
            entity_name ''newest'' ''kcl'' Map.empty) entity_order (c1, d1))
        (\<lambda>(c2, d2). Inr (tables d2 NODE_ENTITY_NAME,
                          node_id (foreign_ids_reverse_mappings c2) ''11111111-1111-4111-8111-111111111111''))))
   = Some (Inr ([(1, [(''uuid'', VStr ''11111111-1111-4111-8111-111111111111''),
                      (''node_type'', VStr ''data.int.Int.'')])], Some 1))"
  by (simp add: run_defs store_defs select_defs preflight_defs example_defs name_defs upt_rec Let_def)

theorem failed_run_rolls_back_witness:
  "import_data_dj
     (example_externals (example_reader
        ((\<lambda>_. [])(NODE_ENTITY_NAME :=
           [(7, [(''uuid'', VStr ''11111111-1111-4111-8111-111111111111''),
                 (''node_type'', VStr ''data.int.Int.'')])]))
        [\<lparr>l_input = ''11111111-1111-4111-8111-111111111111'',
          l_output = ''11111111-1111-4111-8111-111111111111'', l_label = ''x'', l_type = ''return''\<rparr>] []))
     ''archive.aiida'' None False ''kcl'' ''import'' ''newest'' empty_db
   = Some (Inl (ImportValidationError Link_to_oneself), empty_db)"
proof -
  let ?run = "import_data_dj
     (example_externals (example_reader
        ((\<lambda>_. [])(NODE_ENTITY_NAME :=
           [(7, [(''uuid'', VStr ''11111111-1111-4111-8111-111111111111''),
                 (''node_type'', VStr ''data.int.Int.'')])]))
        [\<lparr>l_input = ''11111111-1111-4111-8111-111111111111'',
          l_output = ''11111111-1111-4111-8111-111111111111'', l_label = ''x'', l_type = ''return''\<rparr>] []))
     ''archive.aiida'' None False ''kcl'' ''import'' ''newest'' empty_db"
  have "\<exists>d'. ?run = Some (Inl (ImportValidationError Link_to_oneself), d')"
    by (simp add: run_defs store_defs select_defs preflight_defs example_defs name_defs upt_rec Let_def)
       auto
  then obtain d' where r: "?run = Some (Inl (ImportValidationError Link_to_oneself), d')" ..
  from failed_run_rolls_back[OF r] have "d' = empty_db"
    by (auto simp: example_externals_def)
  with r show ?thesis by simp
qed

text \<open>
  Claim C1 as stated fails: in the same run with a group that the caller passes
  unstored, the group's row stays in the database after link materialization has raised.
\<close>

theorem failed_run_counterexample:
  "import_data_dj
     (example_externals (example_reader
        ((\<lambda>_. [])(NODE_ENTITY_NAME :=
           [(7, [(''uuid'', VStr ''11111111-1111-4111-8111-111111111111''),
                 (''node_type'', VStr ''data.int.Int.'')])]))
        [\<lparr>l_input = ''11111111-1111-4111-8111-111111111111'',
          l_output = ''11111111-1111-4111-8111-111111111111'', l_label = ''x'', l_type = ''return''\<rparr>] []))
     ''archive.aiida'' (Some (OrmGroup None [(''label'', VStr ''mine'')])) False
     ''kcl'' ''import'' ''newest'' empty_db
   = Some (Inl (ImportValidationError Link_to_oneself),
           empty_db \<lparr> tables := (tables empty_db)(GROUP_ENTITY_NAME := [(1, [(''label'', VStr ''mine'')])]) \<rparr>)
   \<and> tables (empty_db \<lparr> tables := (tables empty_db)(GROUP_ENTITY_NAME := [(1, [(''label'', VStr ''mine'')])]) \<rparr>)
        GROUP_ENTITY_NAME
      \<noteq> tables empty_db GROUP_ENTITY_NAME"
  by (simp add: run_defs store_defs select_defs preflight_defs example_defs name_defs upt_rec Let_def)
     auto

lemma unknown_endpoint_ignored:
  assumes "node_id fm (l_input l) = None \<or> node_id fm (l_output l) = None"
  shows "link_step vl lt True fm nodes st l = Inr st"
  using assms by (auto simp: link_step_def split: option.splits)

text \<open>
  Claim C2, as amended. Once the arguments are accepted and the archive is open and of
  a compatible version: when some identifier that passes \<^verbatim>\<open>validate_uuid\<close> is referenced
  by a link or a group membership and is not a node of the archive, and
  \<^verbatim>\<open>ignore_unknown_nodes\<close> is false, the run ends with \<^verbatim>\<open>DanglingLinkError\<close> on these
  identifiers; the database is then as before the run, but for a caller's group stored at
  line 120. With \<^verbatim>\<open>ignore_unknown_nodes\<close> set the check passes, and link materialization
  drops every link with an endpoint that the node identifier map does not resolve.
\<close>

theorem dangling_precheck:
  assumes mode: "extras_mode_new = ''import'' \<or> extras_mode_new = ''none''"
    and gr: "get_reader ext in_path = None"
    and cg: "check_group group' d = Inr (g1, d1)"
    and rd: "open_reader ext in_path = Inr r"
    and cv: "check_version r = None"
    and unknown: "unknown_nodes (validate_uuid ext) r \<noteq> {}"
  shows "import_data_dj ext in_path group' False extras_mode_existing extras_mode_new comment_mode d
           = Some (Inl (DanglingLinkError (unknown_nodes (validate_uuid ext) r)), d1)
       \<and> (d1 = d \<or> (\<exists>f. group' = Some (OrmGroup None f) \<and> d1 = snd (group_store f d)))
       \<and> check_dangling (validate_uuid ext) r True = None
       \<and> (\<forall>l st ls. node_id fm (l_input l) = None \<or> node_id fm (l_output l) = None \<longrightarrow>
             link_loop vl lt True fm nodes st (l # ls) = link_loop vl lt True fm nodes st ls)"
proof -
  from mode have mode: "(extras_mode_new \<noteq> ''import'' \<and> extras_mode_new \<noteq> ''none'') = False"
    by auto
  have pf: "preflight ext r False = Some (DanglingLinkError (unknown_nodes (validate_uuid ext) r))"
    using cv unknown by (simp add: preflight_def check_dangling_def)
  have "import_data_dj ext in_path group' False extras_mode_existing extras_mode_new comment_mode d
           = Some (Inl (DanglingLinkError (unknown_nodes (validate_uuid ext) r)), d1)"
    using gr cg rd pf by (simp add: import_data_dj_def mode)
  moreover note check_group_db[OF cg]
  moreover have "check_dangling (validate_uuid ext) r True = None"
    by (simp add: check_dangling_def)
  moreover have "\<forall>l st ls. node_id fm (l_input l) = None \<or> node_id fm (l_output l) = None \<longrightarrow>
             link_loop vl lt True fm nodes st (l # ls) = link_loop vl lt True fm nodes st ls"
    by (simp add: unknown_endpoint_ignored)
  ultimately show ?thesis by blast
qed

theorem dangling_precheck_witness:
  "unknown_nodes (\<lambda>s. length s = 36)
     (example_reader (\<lambda>_. [])
        [\<lparr>l_input = ''11111111-1111-4111-8111-111111111111'',
          l_output = ''22222222-2222-4222-8222-222222222222'', l_label = ''x'', l_type = ''create''\<rparr>] [])
     = {''11111111-1111-4111-8111-111111111111'', ''22222222-2222-4222-8222-222222222222''}
   \<and> import_data_dj
        (example_externals (example_reader (\<lambda>_. [])
          [\<lparr>l_input = ''11111111-1111-4111-8111-111111111111'',
            l_output = ''22222222-2222-4222-8222-222222222222'', l_label = ''x'', l_type = ''create''\<rparr>] []))
        ''archive.aiida'' None False ''kcl'' ''import'' ''newest'' empty_db
      = Some (Inl (DanglingLinkError
                {''11111111-1111-4111-8111-111111111111'', ''22222222-2222-4222-8222-222222222222''}),
              empty_db)
   \<and> import_data_dj
        (example_externals (example_reader (\<lambda>_. [])
          [\<lparr>l_input = ''11111111-1111-4111-8111-111111111111'',
            l_output = ''22222222-2222-4222-8222-222222222222'', l_label = ''x'', l_type = ''create''\<rparr>] []))
        ''archive.aiida'' None True ''kcl'' ''import'' ''newest'' empty_db
      = Some (Inr (Map.empty, None),
              empty_db \<lparr> tables := (tables empty_db)(GROUP_ENTITY_NAME := [(1, [(''label'', VStr ''import'')])]) \<rparr>)"
proof -
  let ?r = "example_reader (\<lambda>_. [])
        [\<lparr>l_input = ''11111111-1111-4111-8111-111111111111'',
          l_output = ''22222222-2222-4222-8222-222222222222'', l_label = ''x'', l_type = ''create''\<rparr>] []"
  let ?ext = "example_externals ?r"
  have u: "unknown_nodes (validate_uuid ?ext) ?r
     = {''11111111-1111-4111-8111-111111111111'', ''22222222-2222-4222-8222-222222222222''}"
    by (simp add: preflight_defs example_defs name_defs) auto
  have mode: "''import'' = ''import'' \<or> ''import'' = ''none''" by simp
  have gr: "get_reader ?ext ''archive.aiida'' = None" by (simp add: example_externals_def)
  have cg: "check_group None empty_db = Inr (None, empty_db)" by (simp add: check_group_def)
  have rd: "open_reader ?ext ''archive.aiida'' = Inr ?r" by (simp add: example_externals_def)
  have cv: "check_version ?r = None" by (simp add: example_reader_def)
  from u have ne: "unknown_nodes (validate_uuid ?ext) ?r \<noteq> {}" by simp
  from dangling_precheck[OF mode gr cg rd cv ne, of "''kcl''" "''newest''"] u
  have a: "import_data_dj ?ext ''archive.aiida'' None False ''kcl'' ''import'' ''newest'' empty_db
      = Some (Inl (DanglingLinkError
                {''11111111-1111-4111-8111-111111111111'', ''22222222-2222-4222-8222-222222222222''}),
              empty_db)"
    by simp
  have b: "import_data_dj ?ext ''archive.aiida'' None True ''kcl'' ''import'' ''newest'' empty_db
      = Some (Inr (Map.empty, None),
              empty_db \<lparr> tables := (tables empty_db)(GROUP_ENTITY_NAME := [(1, [(''label'', VStr ''import'')])]) \<rparr>)"
    by (simp add: run_defs store_defs select_defs preflight_defs example_defs name_defs upt_rec Let_def)
  from u a b show ?thesis by (simp add: example_externals_def)
qed

text \<open>
  Claim C2 as stated fails: the link endpoints \<^verbatim>\<open>n1\<close> and \<^verbatim>\<open>n2\<close> are not nodes of
  the archive, so the set of referenced identifiers minus the archive's is not empty, but
  they do not pass \<^verbatim>\<open>validate_uuid\<close>: the pre-check raises no \<^verbatim>\<open>DanglingLinkError\<close>, and
  the run ends later, in link materialization, with \<^verbatim>\<open>ImportValidationError\<close>.
\<close>

theorem dangling_precheck_counterexample:
  "(linked_nodes (example_reader (\<lambda>_. [])
        [\<lparr>l_input = ''n1'', l_output = ''n2'', l_label = ''x'', l_type = ''create''\<rparr>] [])
      \<union> group_nodes (example_reader (\<lambda>_. [])
        [\<lparr>l_input = ''n1'', l_output = ''n2'', l_label = ''x'', l_type = ''create''\<rparr>] []))
     - import_nodes_uuid (example_reader (\<lambda>_. [])
        [\<lparr>l_input = ''n1'', l_output = ''n2'', l_label = ''x'', l_type = ''create''\<rparr>] [])
     = {''n1'', ''n2''}
   \<and> import_data_dj
        (example_externals (example_reader (\<lambda>_. [])
           [\<lparr>l_input = ''n1'', l_output = ''n2'', l_label = ''x'', l_type = ''create''\<rparr>] []))
        ''archive.aiida'' None False ''kcl'' ''import'' ''newest'' empty_db
      = Some (Inl (ImportValidationError (Unknown_link_nodes ''n1'' ''n2'' ''x'' ''create'')), empty_db)"
  by (simp add: run_defs store_defs select_defs preflight_defs example_defs name_defs upt_rec Let_def)
     auto

text \<open>
  Claim C8 as stated fails in the class of the exception: the error of link
  materialization for an unresolved endpoint is \<^verbatim>\<open>ImportValidationError\<close>, not the
  \<^verbatim>\<open>DanglingLinkError\<close> that the pre-flight check raises. Here the link's target
  \<^verbatim>\<open>n2\<close> does not pass \<^verbatim>\<open>validate_uuid\<close>, so the pre-flight check lets it through.
\<close>

theorem unknown_endpoint_counterexample:
  "import_data_dj
     (example_externals (example_reader
        ((\<lambda>_. [])(NODE_ENTITY_NAME :=
           [(7, [(''uuid'', VStr ''11111111-1111-4111-8111-111111111111''),
                 (''node_type'', VStr ''process.calculation.calcjob.CalcJobNode.'')])]))
        [\<lparr>l_input = ''11111111-1111-4111-8111-111111111111'', l_output = ''n2'',
          l_label = ''x'', l_type = ''create''\<rparr>] []))
     ''archive.aiida'' None False ''kcl'' ''import'' ''newest'' empty_db
   = Some (Inl (ImportValidationError
             (Unknown_link_nodes ''11111111-1111-4111-8111-111111111111'' ''n2'' ''x'' ''create'')),
           empty_db)
   \<and> ImportValidationError
        (Unknown_link_nodes ''11111111-1111-4111-8111-111111111111'' ''n2'' ''x'' ''create'')
      \<noteq> DanglingLinkError {''n2''}"
  by (simp add: run_defs store_defs select_defs preflight_defs example_defs name_defs upt_rec Let_def)
     auto

subsection \<open>Group labels\<close>

lemma dupl_loop_returns:
  assumes "c < m"
  shows "\<exists>res. dupl_loop taken suf m orig cur c = Some res \<and>
     (case res of
        Inr name \<Rightarrow> \<not> taken name \<and>
          (if taken cur
           then \<exists>k\<ge>c. k + 1 < m \<and> name = orig @ suf k \<and> (\<forall>j. c \<le> j \<and> j < k \<longrightarrow> taken (orig @ suf j))
           else name = cur)
      | Inl e \<Rightarrow> e = ImportUniquenessError orig \<and> taken cur \<and>
          (\<forall>j. c \<le> j \<and> j + 1 < m \<longrightarrow> taken (orig @ suf j)))"
  using assms
proof (induction "m - c" arbitrary: c cur)
  case 0
  then show ?case by simp
next
  case (Suc n)
  show ?case
  proof (cases "taken cur")
    case False
    then show ?thesis by (subst dupl_loop.simps) simp
  next
    case True
    show ?thesis
    proof (cases "c + 1 = m")
      case last: True
      then show ?thesis using True by (subst dupl_loop.simps) auto
    next
      case more: False
      with Suc.prems have lt: "c + 1 < m" by simp
      from Suc.hyps(2) have n: "n = m - (c + 1)" by simp
      from Suc.hyps(1)[OF n lt, of "orig @ suf c"] obtain res where
        r: "dupl_loop taken suf m orig (orig @ suf c) (c + 1) = Some res" and
        p: "(case res of
              Inr name \<Rightarrow> \<not> taken name \<and>
                (if taken (orig @ suf c)
                 then \<exists>k\<ge>c + 1. k + 1 < m \<and> name = orig @ suf k
                        \<and> (\<forall>j. c + 1 \<le> j \<and> j < k \<longrightarrow> taken (orig @ suf j))
                 else name = orig @ suf c)
            | Inl e \<Rightarrow> e = ImportUniquenessError orig \<and> taken (orig @ suf c) \<and>
                (\<forall>j. c + 1 \<le> j \<and> j + 1 < m \<longrightarrow> taken (orig @ suf j)))"
        by blast
      have step: "dupl_loop taken suf m orig cur c = Some res"
        using True more r by (subst dupl_loop.simps) simp
      show ?thesis
      proof (cases res)
        case (Inl e)
        with p have e: "e = ImportUniquenessError orig" and t: "taken (orig @ suf c)"
          and a: "\<forall>j. c + 1 \<le> j \<and> j + 1 < m \<longrightarrow> taken (orig @ suf j)" by auto
        have "\<forall>j. c \<le> j \<and> j + 1 < m \<longrightarrow> taken (orig @ suf j)"
        proof (intro allI impI)
          fix j assume "c \<le> j \<and> j + 1 < m"
          then show "taken (orig @ suf j)" using t a by (cases "j = c") auto
        qed
        with step Inl e True show ?thesis by simp
      next
        case (Inr name)
        with p have nt: "\<not> taken name" by simp
        have "\<exists>k\<ge>c. k + 1 < m \<and> name = orig @ suf k \<and> (\<forall>j. c \<le> j \<and> j < k \<longrightarrow> taken (orig @ suf j))"
        proof (cases "taken (orig @ suf c)")
          case False
          with p Inr have "name = orig @ suf c" by simp
          with lt show ?thesis by (intro exI[of _ c]) auto
        next
          case t: True
          with p Inr obtain k where k: "c + 1 \<le> k" "k + 1 < m" "name = orig @ suf k"
            "\<forall>j. c + 1 \<le> j \<and> j < k \<longrightarrow> taken (orig @ suf j)" by auto
          have "\<forall>j. c \<le> j \<and> j < k \<longrightarrow> taken (orig @ suf j)"
          proof (intro allI impI)
            fix j assume "c \<le> j \<and> j < k"
            then show "taken (orig @ suf j)" using t k(4) by (cases "j = c") auto
          qed
          with k show ?thesis by (intro exI[of _ k]) auto
        qed
        with step Inr nt True show ?thesis by simp
      qed
    qed
  qed
qed

text \<open>
  The renaming loop against the stored labels. For a group record with a string label
  and a positive \<^verbatim>\<open>MAX_GROUPS\<close>, the loop returns. If no stored group has the label, the
  record keeps it. Otherwise the label becomes the original label with
  \<^verbatim>\<open>DUPL_SUFFIX.format(k)\<close> appended, for the first counter \<open>k\<close> whose label no stored
  group has, provided \<open>k + 1 < MAX_GROUPS\<close>; and when the original label and those of
  all counters below \<open>MAX_GROUPS - 1\<close> are stored, it raises \<^verbatim>\<open>ImportUniquenessError\<close>.
  The label returned differs from every stored group label.
\<close>

theorem group_label_disambiguation:
  assumes label: "map_of f ''label'' = Some (VStr orig_label)"
    and bound: "0 < MAX_GROUPS ext"
  shows "\<exists>res. rename_group ext rows f = Some res \<and>
     (case res of
        Inr f' \<Rightarrow>
          (\<exists>label. f' = AList.update ''label'' (VStr label) f
             \<and> \<not> filter_exists rows ''label'' (VStr label)
             \<and> (if filter_exists rows ''label'' (VStr orig_label)
                 then \<exists>k. k + 1 < MAX_GROUPS ext \<and> label = orig_label @ DUPL_SUFFIX ext k
                        \<and> (\<forall>j<k. filter_exists rows ''label'' (VStr (orig_label @ DUPL_SUFFIX ext j)))
                 else label = orig_label))
      | Inl e \<Rightarrow> e = ImportUniquenessError orig_label
          \<and> filter_exists rows ''label'' (VStr orig_label)
          \<and> (\<forall>j. j + 1 < MAX_GROUPS ext \<longrightarrow>
                filter_exists rows ''label'' (VStr (orig_label @ DUPL_SUFFIX ext j))))"
proof -
  let ?taken = "\<lambda>s. filter_exists rows ''label'' (VStr s)"
  from dupl_loop_returns[OF bound, of ?taken "DUPL_SUFFIX ext" orig_label orig_label]
  obtain res where
    r: "dupl_loop ?taken (DUPL_SUFFIX ext) (MAX_GROUPS ext) orig_label orig_label 0 = Some res" and
    p: "(case res of
        Inr name \<Rightarrow> \<not> ?taken name \<and>
          (if ?taken orig_label
           then \<exists>k\<ge>0. k + 1 < MAX_GROUPS ext \<and> name = orig_label @ DUPL_SUFFIX ext k
                  \<and> (\<forall>j. 0 \<le> j \<and> j < k \<longrightarrow> ?taken (orig_label @ DUPL_SUFFIX ext j))
           else name = orig_label)
      | Inl e \<Rightarrow> e = ImportUniquenessError orig_label \<and> ?taken orig_label \<and>
          (\<forall>j. 0 \<le> j \<and> j + 1 < MAX_GROUPS ext \<longrightarrow> ?taken (orig_label @ DUPL_SUFFIX ext j)))"
    by blast
  show ?thesis
  proof (cases res)
    case (Inl e)
    with r p label show ?thesis
      by (simp add: rename_group_def then_do_def)
  next
    case (Inr name)
    with r p label show ?thesis
      by (cases "filter_exists rows ''label'' (VStr orig_label)")
         (auto simp: rename_group_def then_do_def)
  qed
qed

theorem group_label_disambiguation_witness:
  "map_of [(''uuid'', VStr ''u1''), (''label'', VStr ''g'')] ''label'' = Some (VStr ''g'')
   \<and> 0 < MAX_GROUPS (example_externals (example_reader (\<lambda>_. []) [] []))
   \<and> rename_group (example_externals (example_reader (\<lambda>_. []) [] []))
        [(1, [(''uuid'', VStr ''u0''), (''label'', VStr ''g'')]),
         (2, [(''uuid'', VStr ''u2''), (''label'', VStr ''g (Imported #)'')])]
        [(''uuid'', VStr ''u1''), (''label'', VStr ''g'')]
      = Some (Inr [(''uuid'', VStr ''u1''), (''label'', VStr ''g (Imported #I)'')])"
  using group_label_disambiguation
    [of "[(''uuid'', VStr ''u1''), (''label'', VStr ''g'')]" "''g''"
        "example_externals (example_reader (\<lambda>_. []) [] [])"
        "[(1, [(''uuid'', VStr ''u0''), (''label'', VStr ''g'')]),
          (2, [(''uuid'', VStr ''u2''), (''label'', VStr ''g (Imported #)'')])]"]
  by (simp add: rename_group_def then_do_def filter_exists_def attr_def example_externals_def
      dupl_loop.simps)

text \<open>
  Claim C5 at two groups with the label \<^verbatim>\<open>g\<close> in one archive, imported into a database
  without groups. The loop for groups asks the database only (line 334), and the groups
  of the run are stored after classification: classification gives neither record a
  suffix, so both are to be created with the label \<^verbatim>\<open>g\<close>, where the claim has the second
  one renamed. With equal type strings the schema refuses the second row, and the run
  ends with \<^verbatim>\<open>IntegrityError\<close> and nothing stored.
\<close>

theorem same_run_group_labels_not_renamed:
  "then_do
     (select_entity_data
        (example_externals (example_reader
           ((\<lambda>_. [])(GROUP_ENTITY_NAME :=
              [(1, [(''uuid'', VStr ''u1''), (''label'', VStr ''g''), (''type_string'', VStr ''core'')]),
               (2, [(''uuid'', VStr ''u2''), (''label'', VStr ''g''), (''type_string'', VStr ''core'')])]))
           [] []))
        GROUP_ENTITY_NAME
        (example_reader
           ((\<lambda>_. [])(GROUP_ENTITY_NAME :=
              [(1, [(''uuid'', VStr ''u1''), (''label'', VStr ''g''), (''type_string'', VStr ''core'')]),
               (2, [(''uuid'', VStr ''u2''), (''label'', VStr ''g''), (''type_string'', VStr ''core'')])]))
           [] [])
        ''import''
        (\<lparr> new_entries = Map.empty, existing_entries = Map.empty,
            foreign_ids_reverse_mappings = Map.empty, ret_dict = Map.empty, ret_link = None \<rparr>, empty_db))
     (\<lambda>(c, d). Some (Inr (new_entries c GROUP_ENTITY_NAME)))
   = Some (Inr (Some
       [(1, [(''uuid'', VStr ''u1''), (''label'', VStr ''g''), (''type_string'', VStr ''core'')]),
        (2, [(''uuid'', VStr ''u2''), (''label'', VStr ''g''), (''type_string'', VStr ''core'')])]))
   \<and> import_data_dj
     (example_externals (example_reader
        ((\<lambda>_. [])(GROUP_ENTITY_NAME :=
           [(1, [(''uuid'', VStr ''u1''), (''label'', VStr ''g''), (''type_string'', VStr ''core'')]),
            (2, [(''uuid'', VStr ''u2''), (''label'', VStr ''g''), (''type_string'', VStr ''core'')])]))
        [] []))
     ''archive.aiida'' None False ''kcl'' ''import'' ''newest'' empty_db
   = Some (Inl IntegrityError, empty_db)"
  by (simp add: run_defs store_defs select_defs preflight_defs example_defs name_defs upt_rec
      dupl_loop.simps Let_def)

text \<open>
  The sibling loop for computers does consult the names of the run
  (\<^verbatim>\<open>imported_comp_names\<close>, lines 344-357): of two computers named \<^verbatim>\<open>c\<close> the second is
  renamed.
\<close>

lemma same_run_computer_names_renamed:
  "then_do
     (select_entity_data
        (example_externals (example_reader
           ((\<lambda>_. [])(COMPUTER_ENTITY_NAME :=
              [(1, [(''uuid'', VStr ''u1''), (''name'', VStr ''c'')]),
               (2, [(''uuid'', VStr ''u2''), (''name'', VStr ''c'')])]))
           [] []))
        COMPUTER_ENTITY_NAME
        (example_reader
           ((\<lambda>_. [])(COMPUTER_ENTITY_NAME :=
              [(1, [(''uuid'', VStr ''u1''), (''name'', VStr ''c'')]),
               (2, [(''uuid'', VStr ''u2''), (''name'', VStr ''c'')])]))
           [] [])
        ''import''
        (\<lparr> new_entries = Map.empty, existing_entries = Map.empty,
            foreign_ids_reverse_mappings = Map.empty, ret_dict = Map.empty, ret_link = None \<rparr>, empty_db))
     (\<lambda>(c, d). Some (Inr (new_entries c COMPUTER_ENTITY_NAME)))
   = Some (Inr (Some
       [(1, [(''uuid'', VStr ''u1''), (''name'', VStr ''c'')]),
        (2, [(''uuid'', VStr ''u2''), (''name'', VStr ''c (Imported #)'')])]))"
  by (simp add: run_defs store_defs select_defs preflight_defs example_defs name_defs upt_rec
      dupl_loop.simps Let_def)

text \<open>
  With different type strings both groups are stored, with the same label.
\<close>

lemma different_type_strings_stored:
  "import_data_dj
     (example_externals (example_reader
        ((\<lambda>_. [])(GROUP_ENTITY_NAME :=
           [(1, [(''uuid'', VStr ''u1''), (''label'', VStr ''g''), (''type_string'', VStr ''core'')]),
            (2, [(''uuid'', VStr ''u2''), (''label'', VStr ''g''), (''type_string'', VStr ''core.import'')])]))
        [] []))
     ''archive.aiida'' None False ''kcl'' ''import'' ''newest'' empty_db
   = Some (Inr ([GROUP_ENTITY_NAME \<mapsto> ([(1, 1), (2, 2)], [])], None),
           empty_db \<lparr> tables := (tables empty_db)(GROUP_ENTITY_NAME :=
             [(1, [(''uuid'', VStr ''u1''), (''label'', VStr ''g''), (''type_string'', VStr ''core'')]),
              (2, [(''uuid'', VStr ''u2''), (''label'', VStr ''g''), (''type_string'', VStr ''core.import'')]),
              (3, [(''label'', VStr ''import'')])]) \<rparr>)"
  by (simp add: run_defs store_defs select_defs preflight_defs example_defs name_defs upt_rec
      dupl_loop.simps Let_def)

subsection \<open>Comments\<close>






subsection \<open>Group membership\<close>

text \<open>
  \<^verbatim>\<open>_add_nodes_to_groups\<close> has no branch for \<^verbatim>\<open>ignore_unknown_nodes\<close>: for a stored group
  with a member that the node identifier map does not resolve, the list comprehension of
  line 689 raises \<^verbatim>\<open>KeyError\<close> on the member's identifier.
\<close>

theorem unknown_group_member_raises:
  assumes count: "group_count \<noteq> 0"
    and grp: "find (\<lambda>g. attr g ''uuid'' = VStr groupuuid) (tables d GROUP_ENTITY_NAME) = Some grp"
    and unknown: "get_id fm NODE_ENTITY_NAME (VStr node_uuid) = Inl (KeyError (VStr node_uuid))"
  shows "add_nodes_to_groups group_count ((groupuuid, node_uuid # groupnodes) # groups) fm d
           = Inl (KeyError (VStr node_uuid))"
  using assms by (simp add: add_nodes_to_groups_def and_then_def)

theorem unknown_group_member_raises_witness:
  "find (\<lambda>g. attr g ''uuid'' = VStr ''g1'')
     (tables (empty_db \<lparr> tables := (tables empty_db)(GROUP_ENTITY_NAME := [(1, [(''uuid'', VStr ''g1'')])]) \<rparr>)
        GROUP_ENTITY_NAME) = Some (1, [(''uuid'', VStr ''g1'')])
   \<and> get_id [NODE_ENTITY_NAME \<mapsto> Map.empty] NODE_ENTITY_NAME (VStr ''n1'') = Inl (KeyError (VStr ''n1''))
   \<and> add_nodes_to_groups 1 [(''g1'', [''n1''])] [NODE_ENTITY_NAME \<mapsto> Map.empty]
        (empty_db \<lparr> tables := (tables empty_db)(GROUP_ENTITY_NAME := [(1, [(''uuid'', VStr ''g1'')])]) \<rparr>)
      = Inl (KeyError (VStr ''n1''))"
  using unknown_group_member_raises
    [of 1 "''g1''"
        "empty_db \<lparr> tables := (tables empty_db)(GROUP_ENTITY_NAME := [(1, [(''uuid'', VStr ''g1'')])]) \<rparr>"
        "(1, [(''uuid'', VStr ''g1'')])" "[NODE_ENTITY_NAME \<mapsto> Map.empty]" "''n1''" "[]" "[]"]
  by (simp add: get_id_def attr_def)

end
